theory Spec2Isabelle
  imports Main "HOL-Library.Word"
begin

section \<open>OpenGLRenderDevice: data model\<close>

text \<open>
  The device of \<^verbatim>\<open>OpenGLRenderDevice.cpp\<close> is a C++ object whose methods call the
  OpenGL API. The model passes the object's fields explicitly and records every call
  into the API (and every line written to \<^verbatim>\<open>std::cerr\<close>) in the order in which it is
  issued. \<^verbatim>\<open>unsigned int\<close>, \<^verbatim>\<open>GLuint\<close>, \<^verbatim>\<open>GLenum\<close> and \<^verbatim>\<open>GLint\<close> are 32-bit words,
  \<^verbatim>\<open>size_t\<close> is a 64-bit word; a host pointer is the 64-bit address it holds, with
  \<^verbatim>\<open>nullptr\<close> as 0.
\<close>

type_synonym GLuint = "32 word"
type_synonym GLint = "32 word"
type_synonym GLenum = "32 word"
type_synonym size_t = "64 word"
type_synonym pointer = "64 word"

definition nullptr :: pointer where
  "nullptr = 0"

text \<open>
  Modelled from the spec: the enumerations of \<^verbatim>\<open>OpenGLRenderDevice.h\<close>, a header that
  is not among the sources. Each type has the enumerators the implementation names and
  one constructor for every other enumerator, carrying its native constant.
\<close>

datatype FaceCulling = FACE_CULL_NONE | FACE_CULL_BACK | FACE_CULL_FRONT

datatype DrawFunc = DRAW_FUNC_ALWAYS | DRAW_FUNC_OTHER GLenum

datatype BlendFunc = BLEND_FUNC_NONE | BLEND_FUNC_OTHER GLenum

datatype StencilOp = STENCIL_KEEP | STENCIL_OTHER GLenum

datatype BufferUsage = USAGE_STATIC_DRAW | USAGE_STREAM_DRAW | USAGE_DYNAMIC_DRAW

datatype PixelFormat =
  FORMAT_R | FORMAT_RG | FORMAT_RGB | FORMAT_RGBA | FORMAT_DEPTH | FORMAT_DEPTH_AND_STENCIL
  | FORMAT_INVALID GLenum

text \<open>The constants of the API that the implementation passes.\<close>

datatype capability = GL_DEPTH_TEST | GL_CULL_FACE | GL_BLEND | GL_STENCIL_TEST | GL_SCISSOR_TEST

datatype buffer_target = GL_ARRAY_BUFFER | GL_ELEMENT_ARRAY_BUFFER | GL_UNIFORM_BUFFER

datatype shader_type = GL_VERTEX_SHADER | GL_FRAGMENT_SHADER

datatype pixel_store = GL_PACK_ALIGNMENT | GL_UNPACK_ALIGNMENT

datatype native_format =
  GL_ZERO | GL_RED | GL_RG | GL_RGB | GL_RGBA | GL_DEPTH_COMPONENT | GL_DEPTH_STENCIL
  | GL_COMPRESSED_SRGB_S3TC_DXT1_EXT | GL_COMPRESSED_SRGB_ALPHA_S3TC_DXT5_EXT

datatype object_query =
  GL_COMPILE_STATUS | GL_LINK_STATUS | GL_VALIDATE_STATUS | GL_ACTIVE_ATTRIBUTES
  | GL_ACTIVE_ATTRIBUTE_MAX_LENGTH | GL_ACTIVE_UNIFORM_BLOCKS | GL_ACTIVE_UNIFORMS

datatype tex_parameter =
  GL_TEXTURE_MIN_FILTER | GL_TEXTURE_MAG_FILTER | GL_TEXTURE_WRAP_S | GL_TEXTURE_WRAP_T
  | GL_TEXTURE_BASE_LEVEL | GL_TEXTURE_MAX_LEVEL

datatype tex_value = GL_NEAREST | GL_CLAMP_TO_EDGE | LEVEL_0

datatype version_query = GL_MAJOR_VERSION | GL_MINOR_VERSION

definition GL_SAMPLER_2D :: GLenum where
  "GL_SAMPLER_2D = 0x8B5E"

definition GL_TEXTURE0 :: GLenum where
  "GL_TEXTURE0 = 0x84C0"

text \<open>
  One event for each call into the API, with the arguments the implementation passes
  (a size or an offset as the \<^verbatim>\<open>size_t\<close> the argument expression computes), and one
  for each line written to \<^verbatim>\<open>std::cerr\<close>, with the fixed text of the message.
\<close>

datatype (plugins only: code) gl_call =
    glBindFramebuffer GLuint
  | glViewport GLuint GLuint GLuint GLuint
  | glBindVertexArray GLuint
  | glUseProgram GLuint
  | glEnable capability
  | glDisable capability
  | glCullFace FaceCulling
  | glDepthMask bool
  | glDepthFunc DrawFunc
  | glBlendFunc BlendFunc BlendFunc
  | glStencilFunc DrawFunc GLuint GLuint
  | glStencilOp StencilOp StencilOp StencilOp
  | glStencilMask GLuint
  | glScissor GLuint GLuint GLuint GLuint
  | glDrawElements GLenum GLuint
  | glDrawElementsInstanced GLenum GLuint GLuint
  | glGenBuffers GLuint
  | glGenVertexArrays
  | glGenTextures
  | glFramebufferTexture2D GLenum GLuint GLuint
  | glDeleteFramebuffers GLuint
  | glDeleteVertexArrays GLuint
  | glDeleteBuffers "GLuint list"
  | glDeleteSamplers GLuint
  | glDeleteTextures GLuint
  | glBindBuffer buffer_target GLuint
  | glBufferData buffer_target size_t pointer BufferUsage
  | glBufferSubData buffer_target size_t pointer
  | glMapBuffer buffer_target
  | memcpy pointer size_t
  | glUnmapBuffer buffer_target
  | glEnableVertexAttribArray GLuint
  | glVertexAttribPointer GLuint GLuint size_t size_t
  | glVertexAttribDivisor GLuint GLuint
  | glPixelStorei pixel_store GLint
  | glBindTexture GLuint
  | glTexParameter tex_parameter tex_value
  | glTexImage2D native_format GLint GLint native_format pointer
  | glGenerateMipmap
  | glCreateProgram
  | glCreateShader shader_type
  | glShaderSource GLuint string
  | glCompileShader GLuint
  | glGetShaderiv GLuint object_query
  | glGetShaderInfoLog GLuint
  | glAttachShader GLuint GLuint
  | glLinkProgram GLuint
  | glValidateProgram GLuint
  | glGetProgramiv GLuint object_query
  | glGetProgramInfoLog GLuint
  | glGetActiveAttrib GLuint GLint
  | glBindAttribLocation GLuint GLint string
  | glGetActiveUniformBlockiv GLuint GLint
  | glGetActiveUniformBlockName GLuint GLint
  | glGetUniformBlockIndex GLuint string
  | glGetActiveUniform GLuint GLint
  | glGetUniformLocation GLuint string
  | glDetachShader GLuint GLuint
  | glDeleteShader GLuint
  | glDeleteProgram GLuint
  | glActiveTexture GLuint
  | glBindSampler GLuint GLuint
  | glUniform1i GLint GLuint
  | glGetIntegerv version_query
  | glFrontFaceCCW
  | cerr string

record DrawParameters =
  primitiveType :: GLenum
  faceCulling :: FaceCulling
  depthFunc :: DrawFunc
  shouldWriteDepth :: bool
  useScissorTest :: bool
  scissorStartX :: GLuint
  scissorStartY :: GLuint
  scissorWidth :: GLuint
  scissorHeight :: GLuint
  sourceBlend :: BlendFunc
  destBlend :: BlendFunc

text \<open>
  Modelled from the spec: the records \<^verbatim>\<open>FBOData\<close>, \<^verbatim>\<open>VertexArray\<close> and
  \<^verbatim>\<open>ShaderProgram\<close> are declared in the missing header; their fields are the ones the
  implementation reads and writes. The arrays that \<^verbatim>\<open>VertexArray\<close> points to are
  lists; \<^verbatim>\<open>std::unordered_map\<close> is a partial map.
\<close>

record FBOData =
  width :: GLuint
  height :: GLuint

record VertexArray =
  buffers :: "GLuint list"
  bufferSizes :: "size_t list"
  numBuffers :: GLuint
  numElements :: GLuint
  usage :: BufferUsage
  instanceComponentsStartIndex :: GLuint

record ShaderProgram =
  shaders :: "GLuint list"
  uniformMap :: "string \<rightharpoonup> GLint"
  samplerMap :: "string \<rightharpoonup> GLint"

text \<open>
  The fields of the device, followed by \<open>issued\<close>: the calls issued so far, oldest
  first.
\<close>

record device =
  shaderVersion :: string
  version :: GLuint
  boundFBO :: GLuint
  viewportFBO :: GLuint
  viewportWidth :: GLuint
  viewportHeight :: GLuint
  boundVAO :: GLuint
  boundShader :: GLuint
  currentFaceCulling :: FaceCulling
  currentDepthFunc :: DrawFunc
  currentSourceBlend :: BlendFunc
  currentDestBlend :: BlendFunc
  currentStencilFunc :: DrawFunc
  currentStencilTestMask :: GLuint
  currentStencilWriteMask :: GLuint
  currentStencilComparisonVal :: GLuint
  currentStencilFail :: StencilOp
  currentStencilPassButDepthFail :: StencilOp
  currentStencilPass :: StencilOp
  blendingEnabled :: bool
  shouldWriteDepth :: bool
  stencilTestEnabled :: bool
  scissorTestEnabled :: bool
  currentPackAlignment :: GLint
  currentUnpackAlignment :: GLint
  fboMap :: "GLuint \<rightharpoonup> FBOData"
  vaoMap :: "GLuint \<rightharpoonup> VertexArray"
  shaderProgramMap :: "GLuint \<rightharpoonup> ShaderProgram"
  issued :: "gl_call list"

definition emit :: "gl_call \<Rightarrow> device \<Rightarrow> device" where
  "emit c s = s\<lparr>issued := issued s @ [c]\<rparr>"

text \<open>
  \<^verbatim>\<open>m[k]\<close> on a \<^verbatim>\<open>std::unordered_map\<close>: the value stored under \<open>k\<close>, after inserting a
  value-initialised one when \<open>k\<close> has none.
\<close>

definition subscript :: "('k \<rightharpoonup> 'v) \<Rightarrow> 'k \<Rightarrow> 'v \<Rightarrow> 'v \<times> ('k \<rightharpoonup> 'v)" where
  "subscript m k dflt = (case m k of None \<Rightarrow> (dflt, m(k \<mapsto> dflt)) | Some v \<Rightarrow> (v, m))"

definition FBOData0 :: FBOData where
  "FBOData0 = \<lparr>width = 0, height = 0\<rparr>"

definition ShaderProgram0 :: ShaderProgram where
  "ShaderProgram0 = \<lparr>shaders = [], uniformMap = Map.empty, samplerMap = Map.empty\<rparr>"

section \<open>State cache\<close>

definition SetFBO :: "GLuint \<Rightarrow> device \<Rightarrow> device" where
  "SetFBO fbo s =
     (if fbo = boundFBO s then s
      else (emit (glBindFramebuffer fbo) s)\<lparr>boundFBO := fbo\<rparr>)"

definition SetViewport :: "GLuint \<Rightarrow> device \<Rightarrow> device" where
  "SetViewport fbo s =
     (let (fboData, m) = subscript (fboMap s) fbo FBOData0;
          s1 = s\<lparr>fboMap := m\<rparr>
      in if fbo = viewportFBO s1 \<and> width fboData = viewportWidth s1
            \<and> height fboData = viewportHeight s1
         then s1
         else (emit (glViewport 0 0 (width fboData) (height fboData)) s1)
                \<lparr>viewportFBO := fbo, viewportWidth := width fboData,
                 viewportHeight := height fboData\<rparr>)"

definition SetVAO :: "GLuint \<Rightarrow> device \<Rightarrow> device" where
  "SetVAO vao s =
     (if vao = boundVAO s then s
      else (emit (glBindVertexArray vao) s)\<lparr>boundVAO := vao\<rparr>)"

definition SetShader :: "GLuint \<Rightarrow> device \<Rightarrow> device" where
  "SetShader shader s =
     (if shader = boundShader s then s
      else (emit (glUseProgram shader) s)\<lparr>boundShader := shader\<rparr>)"

definition SetFaceCulling :: "FaceCulling \<Rightarrow> device \<Rightarrow> device" where
  "SetFaceCulling fc s =
     (if fc = currentFaceCulling s then s
      else
        (let s1 = (if fc = FACE_CULL_NONE then emit (glDisable GL_CULL_FACE) s
                   else if currentFaceCulling s = FACE_CULL_NONE
                     then emit (glCullFace fc) (emit (glEnable GL_CULL_FACE) s)
                   else emit (glCullFace fc) s)
         in s1\<lparr>currentFaceCulling := fc\<rparr>))"

definition SetDepthTest :: "bool \<Rightarrow> DrawFunc \<Rightarrow> device \<Rightarrow> device" where
  "SetDepthTest shouldWrite df s =
     (let s1 = (if shouldWrite \<noteq> device.shouldWriteDepth s
                then (emit (glDepthMask shouldWrite) s)\<lparr>device.shouldWriteDepth := shouldWrite\<rparr>
                else s)
      in if df = currentDepthFunc s1 then s1
         else (emit (glDepthFunc df) s1)\<lparr>currentDepthFunc := df\<rparr>)"

definition SetBlending :: "BlendFunc \<Rightarrow> BlendFunc \<Rightarrow> device \<Rightarrow> device" where
  "SetBlending src dst s =
     (if src = currentSourceBlend s \<and> dst = currentDestBlend s then s
      else
        (let s1 = (if src = BLEND_FUNC_NONE \<or> dst = BLEND_FUNC_NONE
                     then emit (glDisable GL_BLEND) s
                   else if currentSourceBlend s = BLEND_FUNC_NONE
                           \<or> currentDestBlend s = BLEND_FUNC_NONE
                     then emit (glBlendFunc src dst) (emit (glEnable GL_BLEND) s)
                   else emit (glBlendFunc src dst) s)
         in s1\<lparr>currentSourceBlend := src, currentDestBlend := dst\<rparr>))"

definition SetStencilWriteMask :: "GLuint \<Rightarrow> device \<Rightarrow> device" where
  "SetStencilWriteMask msk s =
     (if currentStencilWriteMask s = msk then s
      else (emit (glStencilMask msk) s)\<lparr>currentStencilWriteMask := msk\<rparr>)"

definition SetStencilTest ::
  "bool \<Rightarrow> DrawFunc \<Rightarrow> GLuint \<Rightarrow> GLuint \<Rightarrow> GLuint \<Rightarrow> StencilOp \<Rightarrow> StencilOp \<Rightarrow> StencilOp
     \<Rightarrow> device \<Rightarrow> device" where
  "SetStencilTest enable sf testMask writeMask cmp sfail spdf spass s =
     (let s1 = (if enable \<noteq> stencilTestEnabled s
                then (if enable then emit (glEnable GL_STENCIL_TEST) s
                      else emit (glDisable GL_STENCIL_TEST) s)\<lparr>stencilTestEnabled := enable\<rparr>
                else s);
          s2 = (if sf \<noteq> currentStencilFunc s1 \<or> testMask \<noteq> currentStencilTestMask s1
                   \<or> cmp \<noteq> currentStencilComparisonVal s1
                then (emit (glStencilFunc sf testMask cmp) s1)
                       \<lparr>currentStencilComparisonVal := cmp, currentStencilTestMask := testMask,
                        currentStencilFunc := sf\<rparr>
                else s1);
          s3 = (if sfail \<noteq> currentStencilFail s2 \<or> spass \<noteq> currentStencilPass s2
                   \<or> spdf \<noteq> currentStencilPassButDepthFail s2
                then (emit (glStencilOp sfail spdf spass) s2)
                       \<lparr>currentStencilFail := sfail, currentStencilPass := spass,
                        currentStencilPassButDepthFail := spdf\<rparr>
                else s2)
      in SetStencilWriteMask writeMask s3)"

definition SetScissorTest ::
  "bool \<Rightarrow> GLuint \<Rightarrow> GLuint \<Rightarrow> GLuint \<Rightarrow> GLuint \<Rightarrow> device \<Rightarrow> device" where
  "SetScissorTest enable startX startY w h s =
     (if \<not> enable then
        (if \<not> scissorTestEnabled s then s
         else (emit (glDisable GL_SCISSOR_TEST) s)\<lparr>scissorTestEnabled := False\<rparr>)
      else
        (let s1 = (if \<not> scissorTestEnabled s then emit (glEnable GL_SCISSOR_TEST) s else s)
         in (emit (glScissor startX startY w h) s1)\<lparr>scissorTestEnabled := True\<rparr>))"

definition SetDrawParameters :: "DrawParameters \<Rightarrow> device \<Rightarrow> device" where
  "SetDrawParameters dp s =
     (let s1 = SetBlending (sourceBlend dp) (destBlend dp) s;
          s2 = SetScissorTest (useScissorTest dp) (scissorStartX dp) (scissorStartY dp)
                 (scissorWidth dp) (scissorHeight dp) s1;
          s3 = SetFaceCulling (faceCulling dp) s2
      in SetDepthTest (DrawParameters.shouldWriteDepth dp) (depthFunc dp) s3)"

section \<open>Draw dispatcher\<close>

definition Draw ::
  "GLuint \<Rightarrow> GLuint \<Rightarrow> GLuint \<Rightarrow> DrawParameters \<Rightarrow> GLuint \<Rightarrow> GLuint \<Rightarrow> device \<Rightarrow> device" where
  "Draw fbo shader vao dp numInstances numElems s =
     (if numInstances = 0 then s
      else
        (let s1 = SetFBO fbo s;
             s2 = SetViewport fbo s1;
             s3 = SetDrawParameters dp s2;
             s4 = SetShader shader s3;
             s5 = SetVAO vao s4
         in if numInstances = 1 then emit (glDrawElements (primitiveType dp) numElems) s5
            else emit (glDrawElementsInstanced (primitiveType dp) numElems numInstances) s5))"

section \<open>The driver\<close>

text \<open>
  What the API hands back to the implementation: the object names it generates, the
  status of a compilation, link or validation, the context's version and the active
  attributes, uniform blocks and uniforms of a linked program. An active uniform is its
  type, its name and its location.
\<close>

record driver =
  drvGenBuffers :: "nat \<Rightarrow> GLuint"
  drvGenVertexArrays :: GLuint
  drvGenTextures :: GLuint
  drvCreateProgram :: GLuint
  drvCreateShader :: "shader_type \<Rightarrow> GLuint"
  drvStatus :: "GLuint \<Rightarrow> object_query \<Rightarrow> bool"
  drvMajorVersion :: GLint
  drvMinorVersion :: GLint
  drvActiveAttributes :: "string list"
  drvActiveUniformBlocks :: "(string \<times> GLint) list"
  drvActiveUniforms :: "(GLenum \<times> string \<times> GLint) list"

section \<open>Resource registry\<close>

text \<open>
  The constructor, when the context and the extension loader initialise: the member
  initialiser list, the record of the window's framebuffer under handle 0 and the four
  calls. \<^verbatim>\<open>viewportWidth\<close> and \<^verbatim>\<open>viewportHeight\<close> are not in the initialiser list; the
  values they start with are arguments here.
\<close>

definition OpenGLRenderDevice :: "GLuint \<Rightarrow> GLuint \<Rightarrow> GLuint \<Rightarrow> GLuint \<Rightarrow> device" where
  "OpenGLRenderDevice windowWidth windowHeight vw vh =
     \<lparr>shaderVersion = [], version = 0, boundFBO = 0, viewportFBO = 0,
      viewportWidth = vw, viewportHeight = vh, boundVAO = 0, boundShader = 0,
      currentFaceCulling = FACE_CULL_NONE, currentDepthFunc = DRAW_FUNC_ALWAYS,
      currentSourceBlend = BLEND_FUNC_NONE, currentDestBlend = BLEND_FUNC_NONE,
      currentStencilFunc = DRAW_FUNC_ALWAYS, currentStencilTestMask = 0xFFFFFFFF,
      currentStencilWriteMask = 0xFFFFFFFF, currentStencilComparisonVal = 0,
      currentStencilFail = STENCIL_KEEP, currentStencilPassButDepthFail = STENCIL_KEEP,
      currentStencilPass = STENCIL_KEEP, blendingEnabled = False,
      shouldWriteDepth = False, stencilTestEnabled = False, scissorTestEnabled = False,
      currentPackAlignment = 0, currentUnpackAlignment = 0,
      fboMap = [0 \<mapsto> \<lparr>width = windowWidth, height = windowHeight\<rparr>],
      vaoMap = Map.empty, shaderProgramMap = Map.empty,
      issued = [glEnable GL_DEPTH_TEST, glDepthFunc DRAW_FUNC_ALWAYS, glDepthMask False,
                glFrontFaceCCW]\<rparr>"

definition CreateRenderTarget ::
  "driver \<Rightarrow> GLuint \<Rightarrow> GLuint \<Rightarrow> GLuint \<Rightarrow> GLenum \<Rightarrow> GLuint \<Rightarrow> GLuint \<Rightarrow> device
     \<Rightarrow> GLuint \<times> device" where
  "CreateRenderTarget drv texture w h attachment attachmentNumber mipLevel s =
     (let fbo = drvGenBuffers drv 0;
          s1 = SetFBO fbo (emit (glGenBuffers 1) s);
          attachmentTypeGL = attachment + attachmentNumber;
          s2 = emit (glFramebufferTexture2D attachmentTypeGL texture mipLevel) s1
      in (fbo, s2\<lparr>fboMap := (fboMap s2)(fbo \<mapsto> \<lparr>width = w, height = h\<rparr>)\<rparr>))"

definition UpdateRenderTarget :: "GLuint \<Rightarrow> GLuint \<Rightarrow> GLuint \<Rightarrow> device \<Rightarrow> device" where
  "UpdateRenderTarget fbo w h s =
     (let (d0, m0) = subscript (fboMap s) 0 FBOData0;
          m1 = m0(0 \<mapsto> d0\<lparr>width := w\<rparr>);
          (d1, m2) = subscript m1 0 FBOData0
      in s\<lparr>fboMap := m2(0 \<mapsto> d1\<lparr>height := h\<rparr>)\<rparr>)"

definition ReleaseRenderTarget :: "GLuint \<Rightarrow> device \<Rightarrow> GLuint \<times> device" where
  "ReleaseRenderTarget fbo s =
     (if fbo = 0 then (0, s)
      else case fboMap s fbo of
        None \<Rightarrow> (0, s)
      | Some d \<Rightarrow> (0, (emit (glDeleteFramebuffers fbo) s)\<lparr>fboMap := (fboMap s)(fbo := None)\<rparr>))"

text \<open>
  \<^verbatim>\<open>UpdateVertexArrayBuffer\<close> indexes the two arrays of the record with \<^verbatim>\<open>bufferIndex\<close>
  unchecked. An index outside them is undefined behaviour: the model has no result
  there.
\<close>

definition UpdateVertexArrayBuffer ::
  "GLuint \<Rightarrow> GLuint \<Rightarrow> pointer \<Rightarrow> size_t \<Rightarrow> device \<Rightarrow> device option" where
  "UpdateVertexArrayBuffer vao bufferIndex data dataSize s =
     (if vao = 0 then Some s
      else case vaoMap s vao of
        None \<Rightarrow> Some s
      | Some vaoData \<Rightarrow>
          (let bufferUsage = (if bufferIndex \<ge> instanceComponentsStartIndex vaoData
                              then USAGE_DYNAMIC_DRAW else usage vaoData);
               s1 = SetVAO vao s
           in if unat bufferIndex \<ge> length (buffers vaoData)
                 \<or> unat bufferIndex \<ge> length (bufferSizes vaoData) then None
              else
                (let s2 = emit (glBindBuffer GL_ARRAY_BUFFER (buffers vaoData ! unat bufferIndex)) s1
                 in if bufferSizes vaoData ! unat bufferIndex \<ge> dataSize
                    then Some (emit (glBufferSubData GL_ARRAY_BUFFER dataSize data) s2)
                    else
                      (let s3 = emit (glBufferData GL_ARRAY_BUFFER dataSize data bufferUsage) s2
                       in Some (s3\<lparr>vaoMap := (vaoMap s3)(vao \<mapsto>
                            vaoData\<lparr>bufferSizes :=
                              (bufferSizes vaoData)[unat bufferIndex := dataSize]\<rparr>)\<rparr>)))))"

definition ReleaseVertexArray :: "GLuint \<Rightarrow> device \<Rightarrow> GLuint \<times> device" where
  "ReleaseVertexArray vao s =
     (if vao = 0 then (0, s)
      else case vaoMap s vao of
        None \<Rightarrow> (0, s)
      | Some vaoData \<Rightarrow>
          (let s1 = emit (glDeleteVertexArrays vao) s;
               s2 = emit (glDeleteBuffers (buffers vaoData)) s1
           in (0, s2\<lparr>vaoMap := (vaoMap s2)(vao := None)\<rparr>)))"

definition ReleaseSampler :: "GLuint \<Rightarrow> device \<Rightarrow> GLuint \<times> device" where
  "ReleaseSampler sampler s =
     (if sampler = 0 then (0, s) else (0, emit (glDeleteSamplers sampler) s))"

definition ReleaseTexture2D :: "GLuint \<Rightarrow> device \<Rightarrow> GLuint \<times> device" where
  "ReleaseTexture2D texture2D s =
     (if texture2D = 0 then (0, s) else (0, emit (glDeleteTextures texture2D) s))"

definition UpdateUniformBuffer :: "GLuint \<Rightarrow> pointer \<Rightarrow> size_t \<Rightarrow> device \<Rightarrow> device" where
  "UpdateUniformBuffer buffer data dataSize s =
     (let s1 = emit (glBindBuffer GL_UNIFORM_BUFFER buffer) s;
          s2 = emit (glMapBuffer GL_UNIFORM_BUFFER) s1;
          s3 = emit (memcpy data dataSize) s2
      in emit (glUnmapBuffer GL_UNIFORM_BUFFER) s3)"

definition ReleaseUniformBuffer :: "GLuint \<Rightarrow> device \<Rightarrow> GLuint \<times> device" where
  "ReleaseUniformBuffer buffer s =
     (if buffer = 0 then (0, s) else (0, emit (glDeleteBuffers [buffer]) s))"

subsection \<open>Vertex arrays\<close>

text \<open>
  The loop over \<open>j\<close> in \<^verbatim>\<open>CreateVertexArray\<close>: one attribute of four floats for each
  full group of the component. It returns the next free attribute.
\<close>

function attribute_loop ::
  "GLuint \<Rightarrow> GLuint \<Rightarrow> GLuint \<Rightarrow> bool \<Rightarrow> GLuint \<Rightarrow> device \<Rightarrow> GLuint \<times> device" where
  "attribute_loop j elementSizeDiv elementSize inInstancedMode attribute s =
     (if j < elementSizeDiv then
        (let s1 = emit (glEnableVertexAttribArray attribute) s;
             s2 = emit (glVertexAttribPointer attribute 4 (ucast elementSize * 4)
                          (4 * ucast j * 4)) s1;
             s3 = (if inInstancedMode then emit (glVertexAttribDivisor attribute 1) s2 else s2)
         in attribute_loop (j + 1) elementSizeDiv elementSize inInstancedMode (attribute + 1) s3)
      else (attribute, s))"
  by pat_completeness auto
termination
proof (relation "measure (\<lambda>(j, d, e, m, a, s). unat d - unat j)")
  show "wf (measure (\<lambda>(j, d, e, m, a, s). unat d - unat j))"
    by simp
next
  fix j elementSizeDiv :: GLuint
  fix elementSize :: GLuint and inInstancedMode :: bool and attribute :: GLuint
  fix s x xa xb :: device
  assume lt: "j < elementSizeDiv"
  then have "unat j < unat elementSizeDiv"
    by (simp add: word_less_nat_alt)
  moreover from lt have "unat (j + 1) = unat j + 1"
    by (metis (no_types, lifting) add.commute add_0 inc_i inc_le
        unat_plus_simple unsigned_0 unsigned_1 word_gt_0)
  ultimately show
    "((j + 1, elementSizeDiv, elementSize, inInstancedMode, attribute + 1, xb),
      (j, elementSizeDiv, elementSize, inInstancedMode, attribute, s))
     \<in> measure (\<lambda>(j, d, e, m, a, s). unat d - unat j)"
    by simp
qed

declare attribute_loop.simps [simp del]

text \<open>
  The attributes of one component: the full groups, then the remaining group of fewer
  than four floats when there is one.
\<close>

definition component_attributes :: "GLuint \<Rightarrow> bool \<Rightarrow> GLuint \<Rightarrow> device \<Rightarrow> GLuint \<times> device" where
  "component_attributes elementSize inInstancedMode attribute s =
     (let elementSizeDiv = elementSize div 4;
          elementSizeRem = elementSize mod 4;
          (attribute1, s1) =
             attribute_loop 0 elementSizeDiv elementSize inInstancedMode attribute s
      in if elementSizeRem \<noteq> 0 then
           (let s2 = emit (glEnableVertexAttribArray attribute1) s1;
                s3 = emit (glVertexAttribPointer attribute1 elementSizeRem
                             (ucast elementSize * 4) (4 * ucast elementSizeDiv * 4)) s2;
                s4 = (if inInstancedMode then emit (glVertexAttribDivisor attribute1 1) s3
                      else s3)
            in (attribute1 + 1, s4))
         else (attribute1, s1))"

text \<open>
  The loop over the components. Reading \<^verbatim>\<open>vertexElementSizes\<close>, \<^verbatim>\<open>vertexData\<close> or
  \<^verbatim>\<open>buffers\<close> beyond their last entry is undefined behaviour: the model has no result
  there. \<^verbatim>\<open>vertexData\<close> is \<open>None\<close> when the caller passes \<^verbatim>\<open>nullptr\<close>.
\<close>

function component_loop ::
  "pointer list option \<Rightarrow> GLuint list \<Rightarrow> GLuint \<Rightarrow> GLuint \<Rightarrow> BufferUsage \<Rightarrow> GLuint list
     \<Rightarrow> GLuint \<Rightarrow> GLuint \<Rightarrow> GLuint \<Rightarrow> size_t list \<Rightarrow> device \<Rightarrow> (size_t list \<times> device) option"
  where
  "component_loop vertexData vertexElementSizes numVertexComponents numVertices bufUsage bufs
       numBufs i attribute bufSizes s =
     (if i < numBufs - 1 then
        (let inInstancedMode = (i \<ge> numVertexComponents);
             attributeUsage = (if inInstancedMode then USAGE_DYNAMIC_DRAW else bufUsage)
         in if unat i \<ge> length vertexElementSizes \<or> unat i \<ge> length bufs
               \<or> unat i \<ge> length bufSizes then None
            else
              (case (if inInstancedMode then Some nullptr
                     else case vertexData of
                            None \<Rightarrow> Some nullptr
                          | Some ps \<Rightarrow> if unat i < length ps then Some (ps ! unat i) else None)
               of None \<Rightarrow> None
                | Some bufferData \<Rightarrow>
                   (let elementSize = vertexElementSizes ! unat i;
                        dataSize = (if inInstancedMode then ucast elementSize * 4
                                    else ucast elementSize * 4 * ucast numVertices);
                        s1 = emit (glBindBuffer GL_ARRAY_BUFFER (bufs ! unat i)) s;
                        s2 = emit (glBufferData GL_ARRAY_BUFFER dataSize bufferData
                                     attributeUsage) s1;
                        r = component_attributes elementSize inInstancedMode attribute s2
                    in component_loop vertexData vertexElementSizes numVertexComponents
                         numVertices bufUsage bufs numBufs (i + 1) (fst r)
                         (bufSizes[unat i := dataSize]) (snd r))))
      else Some (bufSizes, s))"
  by pat_completeness auto
termination
proof -
  have succ: "\<And>j d :: GLuint. j < d \<Longrightarrow> unat (j + 1) = unat j + 1"
    by (metis (no_types, lifting) add.commute add_0 inc_i inc_le
        unat_plus_simple unsigned_0 unsigned_1 word_gt_0)
  show ?thesis
    apply (relation "measure (\<lambda>(vd, es, nvc, nv, u, bs, nb, i, a, sz, s). unat (nb - 1) - unat i)")
     apply simp
    apply (simp add: succ word_less_nat_alt)
    done
qed

declare component_loop.simps [simp del]

definition CreateVertexArray ::
  "driver \<Rightarrow> pointer list option \<Rightarrow> GLuint list \<Rightarrow> GLuint \<Rightarrow> GLuint \<Rightarrow> GLuint \<Rightarrow> pointer
     \<Rightarrow> GLuint \<Rightarrow> BufferUsage \<Rightarrow> device \<Rightarrow> (GLuint \<times> device) option" where
  "CreateVertexArray drv vertexData vertexElementSizes numVertexComponents
       numInstanceComponents numVertices indexData numIndices bufUsage s =
     (let numBufs = numVertexComponents + numInstanceComponents + 1;
          vao = drvGenVertexArrays drv;
          s1 = SetVAO vao (emit glGenVertexArrays s);
          bufs = map (drvGenBuffers drv) [0..<unat numBufs];
          s2 = emit (glGenBuffers numBufs) s1
      in case component_loop vertexData vertexElementSizes numVertexComponents numVertices
                bufUsage bufs numBufs 0 0 (replicate (unat numBufs) 0) s2 of
           None \<Rightarrow> None
         | Some (bufSizes, s3) \<Rightarrow>
             if unat (numBufs - 1) \<ge> length bufs then None
             else
               (let indicesSize = ucast numIndices * 4;
                    s4 = emit (glBindBuffer GL_ELEMENT_ARRAY_BUFFER (bufs ! unat (numBufs - 1))) s3;
                    s5 = emit (glBufferData GL_ELEMENT_ARRAY_BUFFER indicesSize indexData
                                 bufUsage) s4;
                    vaoData = \<lparr>buffers = bufs,
                               bufferSizes = bufSizes[unat (numBufs - 1) := indicesSize],
                               numBuffers = numBufs, numElements = numIndices,
                               usage = bufUsage,
                               instanceComponentsStartIndex = numVertexComponents\<rparr>
                in Some (vao, s5\<lparr>vaoMap := (vaoMap s5)(vao \<mapsto> vaoData)\<rparr>)))"

subsection \<open>Textures\<close>

fun GetOpenGLFormat :: "PixelFormat \<Rightarrow> device \<Rightarrow> native_format \<times> device" where
  "GetOpenGLFormat FORMAT_R s = (GL_RED, s)"
| "GetOpenGLFormat FORMAT_RG s = (GL_RG, s)"
| "GetOpenGLFormat FORMAT_RGB s = (GL_RGB, s)"
| "GetOpenGLFormat FORMAT_RGBA s = (GL_RGBA, s)"
| "GetOpenGLFormat FORMAT_DEPTH s = (GL_DEPTH_COMPONENT, s)"
| "GetOpenGLFormat FORMAT_DEPTH_AND_STENCIL s = (GL_DEPTH_STENCIL, s)"
| "GetOpenGLFormat (FORMAT_INVALID v) s =
     (GL_ZERO, emit (cerr ''Error: PixelFormat is not a valid PixelFormat.'') s)"

fun GetOpenGLInternalFormat :: "PixelFormat \<Rightarrow> bool \<Rightarrow> device \<Rightarrow> native_format \<times> device" where
  "GetOpenGLInternalFormat FORMAT_R compress s = (GL_RED, s)"
| "GetOpenGLInternalFormat FORMAT_RG compress s = (GL_RG, s)"
| "GetOpenGLInternalFormat FORMAT_RGB compress s =
     (if compress then (GL_COMPRESSED_SRGB_S3TC_DXT1_EXT, s) else (GL_RGB, s))"
| "GetOpenGLInternalFormat FORMAT_RGBA compress s =
     (if compress then (GL_COMPRESSED_SRGB_ALPHA_S3TC_DXT5_EXT, s) else (GL_RGBA, s))"
| "GetOpenGLInternalFormat FORMAT_DEPTH compress s = (GL_DEPTH_COMPONENT, s)"
| "GetOpenGLInternalFormat FORMAT_DEPTH_AND_STENCIL compress s = (GL_DEPTH_STENCIL, s)"
| "GetOpenGLInternalFormat (FORMAT_INVALID v) compress s =
     (GL_ZERO, emit (cerr ''Error: PixelFormat is not a valid PixelFormat.'') s)"

text \<open>The two alignment checks at the head of \<^verbatim>\<open>CreateTexture2D\<close>.\<close>

definition pixel_store_alignment :: "GLint \<Rightarrow> GLint \<Rightarrow> device \<Rightarrow> device" where
  "pixel_store_alignment packAlignment unpackAlignment s =
     (let s1 = (if packAlignment \<noteq> currentPackAlignment s
                then (emit (glPixelStorei GL_PACK_ALIGNMENT packAlignment) s)
                       \<lparr>currentPackAlignment := packAlignment\<rparr>
                else s)
      in if unpackAlignment \<noteq> currentUnpackAlignment s1
         then (emit (glPixelStorei GL_UNPACK_ALIGNMENT unpackAlignment) s1)
                \<lparr>currentUnpackAlignment := unpackAlignment\<rparr>
         else s1)"

definition CreateTexture2D ::
  "driver \<Rightarrow> GLint \<Rightarrow> GLint \<Rightarrow> pointer \<Rightarrow> PixelFormat \<Rightarrow> PixelFormat \<Rightarrow> bool \<Rightarrow> bool
     \<Rightarrow> GLint \<Rightarrow> GLint \<Rightarrow> device \<Rightarrow> GLuint \<times> device" where
  "CreateTexture2D drv w h data dataFormat internalFormat generateMipmaps compress
       packAlignment unpackAlignment s =
     (let (format, s1) = GetOpenGLFormat dataFormat s;
          (glInternalFormat, s2) = GetOpenGLInternalFormat internalFormat compress s1;
          s3 = pixel_store_alignment packAlignment unpackAlignment s2;
          textureHandle = drvGenTextures drv;
          s4 = emit (glBindTexture textureHandle) (emit glGenTextures s3);
          s5 = emit (glTexParameter GL_TEXTURE_MIN_FILTER GL_NEAREST) s4;
          s6 = emit (glTexParameter GL_TEXTURE_MAG_FILTER GL_NEAREST) s5;
          s7 = emit (glTexParameter GL_TEXTURE_WRAP_S GL_CLAMP_TO_EDGE) s6;
          s8 = emit (glTexParameter GL_TEXTURE_WRAP_T GL_CLAMP_TO_EDGE) s7;
          s9 = emit (glTexImage2D glInternalFormat w h format data) s8
      in if generateMipmaps then (textureHandle, emit glGenerateMipmap s9)
         else (textureHandle,
               emit (glTexParameter GL_TEXTURE_MAX_LEVEL LEVEL_0)
                 (emit (glTexParameter GL_TEXTURE_BASE_LEVEL LEVEL_0) s9)))"

section \<open>Version detection\<close>

definition GetVersion :: "driver \<Rightarrow> device \<Rightarrow> GLuint \<times> device" where
  "GetVersion drv s =
     (if version s \<noteq> 0 then (version s, s)
      else
        (let s1 = emit (glGetIntegerv GL_MAJOR_VERSION) s;
             s2 = emit (glGetIntegerv GL_MINOR_VERSION) s1;
             v = drvMajorVersion drv * 100 + drvMinorVersion drv * 10
         in (v, s2\<lparr>version := v\<rparr>)))"

text \<open>\<^verbatim>\<open>std::to_string\<close> of an unsigned value: its decimal digits.\<close>

definition digit :: "nat \<Rightarrow> char" where
  "digit d = char_of (48 + d)"

function to_string :: "nat \<Rightarrow> string" where
  "to_string n = (if n < 10 then [digit n] else to_string (n div 10) @ [digit (n mod 10)])"
  by pat_completeness auto
termination
  by (relation "measure id") auto

declare to_string.simps [simp del]

definition GetShaderVersion :: "driver \<Rightarrow> device \<Rightarrow> string \<times> device" where
  "GetShaderVersion drv s =
     (if shaderVersion s \<noteq> [] then (shaderVersion s, s)
      else
        (let (v, s1) = GetVersion drv s
         in if v \<ge> 330 then
              (let s2 = s1\<lparr>shaderVersion := to_string (unat v)\<rparr> in (shaderVersion s2, s2))
            else if v \<ge> 320 then
              (let s2 = s1\<lparr>shaderVersion := ''150''\<rparr> in (shaderVersion s2, s2))
            else if v \<ge> 310 then
              (let s2 = s1\<lparr>shaderVersion := ''140''\<rparr> in (shaderVersion s2, s2))
            else if v \<ge> 300 then
              (let s2 = s1\<lparr>shaderVersion := ''130''\<rparr> in (shaderVersion s2, s2))
            else if v \<ge> 210 then
              (let s2 = s1\<lparr>shaderVersion := ''120''\<rparr> in (shaderVersion s2, s2))
            else if v \<ge> 200 then
              (let s2 = s1\<lparr>shaderVersion := ''110''\<rparr> in (shaderVersion s2, s2))
            else
              ([], emit (cerr ''Error: OpenGL Version does not support shaders.'') s1)))"

section \<open>Shader program pipeline\<close>

text \<open>
  \<^verbatim>\<open>std::string::find(needle, pos)\<close>: the first position from \<open>pos\<close> on at which
  \<open>needle\<close> occurs. \<open>None\<close> is \<^verbatim>\<open>npos\<close>, the largest \<^verbatim>\<open>size_t\<close>; as a start position
  it lies beyond the end of every string, so the search from it finds nothing.
\<close>

function find_at :: "string \<Rightarrow> string \<Rightarrow> nat \<Rightarrow> nat option" where
  "find_at text needle pos =
     (if length text < pos + length needle then None
      else if take (length needle) (drop pos text) = needle then Some pos
      else find_at text needle (Suc pos))"
  by pat_completeness auto
termination
  by (relation "measure (\<lambda>(text, needle, pos). Suc (length text) - pos)") auto

declare find_at.simps [simp del]

fun string_find :: "string \<Rightarrow> string \<Rightarrow> nat option \<Rightarrow> nat option" where
  "string_find text needle None = None"
| "string_find text needle (Some pos) = find_at text needle pos"

definition string_insert :: "string \<Rightarrow> nat \<Rightarrow> string \<Rightarrow> string" where
  "string_insert text pos str = take pos text @ str @ drop pos text"

definition newline :: char where
  "newline = CHR 0x0A"

definition AddShader ::
  "driver \<Rightarrow> GLuint \<Rightarrow> string \<Rightarrow> shader_type \<Rightarrow> GLuint list \<Rightarrow> device
     \<Rightarrow> bool \<times> GLuint list \<times> device" where
  "AddShader drv shaderProgram text type shaderList s =
     (let shader = drvCreateShader drv type;
          s1 = emit (glCreateShader type) s
      in if shader = 0 then (False, shaderList, emit (cerr ''Error creating shader type'') s1)
         else
           (let s2 = emit (glShaderSource shader text) s1;
                s3 = emit (glCompileShader shader) s2;
                s4 = emit (glGetShaderiv shader GL_COMPILE_STATUS) s3
            in if \<not> drvStatus drv shader GL_COMPILE_STATUS then
                 (False, shaderList,
                  emit (cerr ''Error compiling shader type'') (emit (glGetShaderInfoLog shader) s4))
               else (True, shaderList @ [shader], emit (glAttachShader shaderProgram shader) s4)))"

fun attribute_bind_loop :: "GLuint \<Rightarrow> string list \<Rightarrow> GLint \<Rightarrow> device \<Rightarrow> device" where
  "attribute_bind_loop program [] attribute s = s"
| "attribute_bind_loop program (nm # nms) attribute s =
     attribute_bind_loop program nms (attribute + 1)
       (emit (glBindAttribLocation program attribute nm)
          (emit (glGetActiveAttrib program attribute) s))"

definition AddAllAttributes :: "driver \<Rightarrow> GLuint \<Rightarrow> GLuint \<Rightarrow> device \<Rightarrow> device" where
  "AddAllAttributes drv program ver s =
     (if ver \<ge> 320 then s
      else
        (let s1 = emit (glGetProgramiv program GL_ACTIVE_ATTRIBUTES) s;
             s2 = emit (glGetProgramiv program GL_ACTIVE_ATTRIBUTE_MAX_LENGTH) s1
         in attribute_bind_loop program (drvActiveAttributes drv) 0 s2))"

definition CheckShaderError ::
  "driver \<Rightarrow> GLuint \<Rightarrow> object_query \<Rightarrow> bool \<Rightarrow> string \<Rightarrow> device \<Rightarrow> bool \<times> device" where
  "CheckShaderError drv shader flag isProgram errorMessage s =
     (let s1 = (if isProgram then emit (glGetProgramiv shader flag) s
                else emit (glGetShaderiv shader flag) s)
      in if \<not> drvStatus drv shader flag then
           (let s2 = (if isProgram then emit (glGetProgramInfoLog shader) s1
                      else emit (glGetShaderInfoLog shader) s1)
            in (True, emit (cerr errorMessage) s2))
         else (False, s1))"

text \<open>
  The loop of \<^verbatim>\<open>AddShaderUniforms\<close> over the active uniform blocks: block \<open>block\<close> is
  stored under its name with the index the driver reports for it.
\<close>

fun uniform_block_loop ::
  "GLuint \<Rightarrow> (string \<times> GLint) list \<Rightarrow> GLint \<Rightarrow> (string \<rightharpoonup> GLint) \<Rightarrow> device
     \<Rightarrow> (string \<rightharpoonup> GLint) \<times> device" where
  "uniform_block_loop shaderProgram [] block um s = (um, s)"
| "uniform_block_loop shaderProgram ((uniformBlockName, blockIndex) # blocks) block um s =
     (let s1 = emit (glGetActiveUniformBlockiv shaderProgram block) s;
          s2 = emit (glGetActiveUniformBlockName shaderProgram block) s1;
          s3 = emit (glGetUniformBlockIndex shaderProgram uniformBlockName) s2
      in uniform_block_loop shaderProgram blocks (block + 1)
           (um(uniformBlockName \<mapsto> blockIndex)) s3)"

text \<open>
  \<^verbatim>\<open>glGetActiveUniform\<close> at index \<open>uniform\<close>. Outside the active uniforms the call
  leaves its outputs as the loop initialised them: type 0 and length 0.
\<close>

definition active_uniform :: "driver \<Rightarrow> int \<Rightarrow> GLenum \<times> string \<times> GLint" where
  "active_uniform drv uniform =
     (if 0 \<le> uniform \<and> nat uniform < length (drvActiveUniforms drv)
      then drvActiveUniforms drv ! nat uniform else (0, [], 0))"

text \<open>
  The loop of \<^verbatim>\<open>AddShaderUniforms\<close> over the uniforms, for \<open>uniform\<close> below
  \<open>numUniforms\<close>. The key stored is the first \<^verbatim>\<open>actualLength - 1\<close> characters of the
  uniform's name.
\<close>

function uniform_loop ::
  "driver \<Rightarrow> GLuint \<Rightarrow> int \<Rightarrow> int \<Rightarrow> (string \<rightharpoonup> GLint) \<Rightarrow> device
     \<Rightarrow> (string \<rightharpoonup> GLint) \<times> device" where
  "uniform_loop drv shaderProgram uniform numUniforms sm s =
     (if uniform < numUniforms then
        (let s1 = emit (glGetActiveUniform shaderProgram (word_of_int uniform)) s;
             (type, uniformName, location) = active_uniform drv uniform
         in if type \<noteq> GL_SAMPLER_2D then
              uniform_loop drv shaderProgram (uniform + 1) numUniforms sm
                (emit (cerr ''Error: Non-sampler2D uniforms currently unsupported!'') s1)
            else
              uniform_loop drv shaderProgram (uniform + 1) numUniforms
                (sm(take (length uniformName - 1) uniformName \<mapsto> location))
                (emit (glGetUniformLocation shaderProgram uniformName) s1))
      else (sm, s))"
  by pat_completeness auto
termination
  by (relation "measure (\<lambda>(drv, p, uniform, numUniforms, sm, s). nat (numUniforms - uniform))")
    auto

declare uniform_loop.simps [simp del]

text \<open>
  \<^verbatim>\<open>AddShaderUniforms\<close>. The source declares \<^verbatim>\<open>const GLint numUniforms = 0\<close> and has
  the number of active uniforms written into \<^verbatim>\<open>numBlocks\<close>; the loop over the uniforms
  runs up to \<^verbatim>\<open>numUniforms\<close>.
\<close>

definition AddShaderUniforms ::
  "driver \<Rightarrow> GLuint \<Rightarrow> (string \<rightharpoonup> GLint) \<Rightarrow> (string \<rightharpoonup> GLint) \<Rightarrow> device
     \<Rightarrow> (string \<rightharpoonup> GLint) \<times> (string \<rightharpoonup> GLint) \<times> device" where
  "AddShaderUniforms drv shaderProgram um sm s =
     (let s1 = emit (glGetProgramiv shaderProgram GL_ACTIVE_UNIFORM_BLOCKS) s;
          (um1, s2) = uniform_block_loop shaderProgram (drvActiveUniformBlocks drv) 0 um s1;
          numUniforms = 0;
          s3 = emit (glGetProgramiv shaderProgram GL_ACTIVE_UNIFORMS) s2;
          numBlocks = int (length (drvActiveUniforms drv));
          (sm1, s4) = uniform_loop drv shaderProgram 0 numUniforms sm s3
      in (um1, sm1, s4))"

definition CreateShaderProgram :: "driver \<Rightarrow> string \<Rightarrow> device \<Rightarrow> GLuint \<times> device" where
  "CreateShaderProgram drv shaderText s =
     (let shaderProgram = drvCreateProgram drv;
          s0 = emit glCreateProgram s
      in if shaderProgram = 0 then (- 1, emit (cerr ''Error creating shader program.'') s0)
         else
           (case string_find shaderText [newline] (string_find shaderText ''#version'' (Some 0)) of
              None \<Rightarrow>
                (- 1, emit (cerr ''Error: Shader program is missing #version directive.'') s0)
            | Some pos \<Rightarrow>
                (let defineInsertPosition = pos + 1;
                     vertexShaderText = string_insert shaderText defineInsertPosition
                                          (''#define VERTEX_SHADER_BUILD'' @ [newline]);
                     fragmentShaderText = string_insert shaderText defineInsertPosition
                                            (''#define FRAGMENT_SHADER_BUILD'' @ [newline]);
                     (ok1, shaders1, s1) =
                        AddShader drv shaderProgram vertexShaderText GL_VERTEX_SHADER [] s0
                 in if \<not> ok1 then (- 1, s1)
                    else
                      (let (ok2, shaders2, s2) =
                             AddShader drv shaderProgram fragmentShaderText GL_FRAGMENT_SHADER
                               shaders1 s1
                       in if \<not> ok2 then (- 1, s2)
                          else
                            (let (linkError, s3) =
                                   CheckShaderError drv shaderProgram GL_LINK_STATUS True
                                     ''Error linking shader program''
                                     (emit (glLinkProgram shaderProgram) s2)
                             in if linkError then (- 1, s3)
                                else
                                  (let (invalid, s4) =
                                         CheckShaderError drv shaderProgram GL_VALIDATE_STATUS True
                                           ''Invalid shader program''
                                           (emit (glValidateProgram shaderProgram) s3)
                                   in if invalid then (- 1, s4)
                                      else
                                        (let (ver, s5) = GetVersion drv s4;
                                             s6 = AddAllAttributes drv shaderProgram ver s5;
                                             (um, sm, s7) =
                                                AddShaderUniforms drv shaderProgram
                                                  Map.empty Map.empty s6;
                                             programData =
                                                \<lparr>shaders = shaders2, uniformMap = um,
                                                 samplerMap = sm\<rparr>
                                         in (shaderProgram,
                                             s7\<lparr>shaderProgramMap :=
                                                  (shaderProgramMap s7)
                                                    (shaderProgram \<mapsto> programData)\<rparr>))))))))"

definition SetShaderSampler ::
  "GLuint \<Rightarrow> string \<Rightarrow> GLuint \<Rightarrow> GLuint \<Rightarrow> GLuint \<Rightarrow> device \<Rightarrow> device" where
  "SetShaderSampler shader samplerName texture sampler unit s =
     (let s1 = SetShader shader s;
          s2 = emit (glActiveTexture (GL_TEXTURE0 + unit)) s1;
          s3 = emit (glBindTexture texture) s2;
          s4 = emit (glBindSampler unit sampler) s3;
          (programData, pm) = subscript (shaderProgramMap s4) shader ShaderProgram0;
          (location, sm) = subscript (samplerMap programData) samplerName 0;
          s5 = s4\<lparr>shaderProgramMap := pm(shader \<mapsto> programData\<lparr>samplerMap := sm\<rparr>)\<rparr>
      in emit (glUniform1i location unit) s5)"

fun delete_shaders :: "GLuint \<Rightarrow> GLuint list \<Rightarrow> device \<Rightarrow> device" where
  "delete_shaders shader [] s = s"
| "delete_shaders shader (x # xs) s =
     delete_shaders shader xs (emit (glDeleteShader x) (emit (glDetachShader shader x) s))"

definition ReleaseShaderProgram :: "GLuint \<Rightarrow> device \<Rightarrow> GLuint \<times> device" where
  "ReleaseShaderProgram shader s =
     (if shader = 0 then (0, s)
      else case shaderProgramMap s shader of
        None \<Rightarrow> (0, s)
      | Some shaderProgram \<Rightarrow>
          (let s1 = delete_shaders shader (shaders shaderProgram) s;
               s2 = emit (glDeleteProgram shader) s1
           in (0, s2\<lparr>shaderProgramMap := (shaderProgramMap s2)(shader := None)\<rparr>)))"

text \<open>
  The spec's words for the source texts that \<^verbatim>\<open>CreateShaderProgram\<close> accepts: the
  text has a version directive when \<^verbatim>\<open>#version\<close> occurs in it and a newline follows
  the occurrence.
\<close>

definition occurs_at :: "string \<Rightarrow> string \<Rightarrow> nat \<Rightarrow> bool" where
  "occurs_at needle text i \<longleftrightarrow>
     i + length needle \<le> length text \<and> take (length needle) (drop i text) = needle"

definition has_version_directive :: "string \<Rightarrow> bool" where
  "has_version_directive text \<longleftrightarrow>
     list_ex (\<lambda>i. occurs_at ''#version'' text i
                \<and> list_ex (\<lambda>j. text ! j = newline) [i + length ''#version'' ..< length text])
       [0..<length text]"

section \<open>Observing the calls\<close>

text \<open>The calls issued on the way from state \<open>s\<close> to a later state \<open>s'\<close>.\<close>

definition calls_between :: "device \<Rightarrow> device \<Rightarrow> gl_call list" where
  "calls_between s s' = drop (length (issued s)) (issued s')"

text \<open>
  The spec's words for the packing of one component: an element size \<open>n\<close> takes
  \<open>n div 4\<close> slots of width 4, followed by one slot of width \<open>n mod 4\<close> when that is
  not 0. \<open>slot_count\<close> is the number of slots a list of components takes.
\<close>

definition packed_slots :: "nat \<Rightarrow> nat list" where
  "packed_slots n = replicate (n div 4) 4 @ (if n mod 4 \<noteq> 0 then [n mod 4] else [])"

text \<open>
  The slot and the width of every \<^verbatim>\<open>glVertexAttribPointer\<close> call of a list of
  calls, the slot and the divisor of every \<^verbatim>\<open>glVertexAttribDivisor\<close> call, and the
  \<open>n\<close> consecutive slots from slot \<open>a\<close> on.
\<close>

definition pointer_slots :: "gl_call list \<Rightarrow> (GLuint \<times> GLuint) list" where
  "pointer_slots cs =
     concat (map (\<lambda>c. case c of glVertexAttribPointer a n st off \<Rightarrow> [(a, n)] | _ \<Rightarrow> []) cs)"

definition divisor_slots :: "gl_call list \<Rightarrow> (GLuint \<times> GLuint) list" where
  "divisor_slots cs =
     concat (map (\<lambda>c. case c of glVertexAttribDivisor a d \<Rightarrow> [(a, d)] | _ \<Rightarrow> []) cs)"

definition slot_count :: "nat list \<Rightarrow> nat" where
  "slot_count ns = length (concat (map packed_slots ns))"

definition consecutive_slots :: "GLuint \<Rightarrow> nat \<Rightarrow> GLuint list" where
  "consecutive_slots a n = map (\<lambda>k. a + of_nat k) [0..<n]"

text \<open>
  The spec's words for the calls of each step of \<^verbatim>\<open>Draw\<close>, from the requested and
  the cached values: a binding is issued when the requested handle differs from the
  bound one; the viewport of the target's recorded size (width 0 and height 0 for a
  target with no record) is issued unless the cache holds that target with that size;
  blending and face culling are disabled, enabled and set, or only set, when the
  requested value differs from the cached one; the scissor test is disabled when it is
  enabled, and enabling it issues the rectangle every time; the depth write mask and the
  depth function are issued each when it differs from the cached one.
\<close>

definition target_calls :: "GLuint \<Rightarrow> GLuint \<Rightarrow> gl_call list" where
  "target_calls fbo bound = (if fbo = bound then [] else [glBindFramebuffer fbo])"

definition target_record :: "(GLuint \<rightharpoonup> FBOData) \<Rightarrow> GLuint \<Rightarrow> FBOData" where
  "target_record m fbo = (case m fbo of None \<Rightarrow> \<lparr>width = 0, height = 0\<rparr> | Some d \<Rightarrow> d)"

definition viewport_calls :: "GLuint \<Rightarrow> FBOData \<Rightarrow> GLuint \<Rightarrow> GLuint \<Rightarrow> GLuint \<Rightarrow> gl_call list" where
  "viewport_calls fbo d vfbo vw vh =
     (if fbo = vfbo \<and> width d = vw \<and> height d = vh then []
      else [glViewport 0 0 (width d) (height d)])"

definition blending_calls :: "BlendFunc \<Rightarrow> BlendFunc \<Rightarrow> BlendFunc \<Rightarrow> BlendFunc \<Rightarrow> gl_call list" where
  "blending_calls src dst csrc cdst =
     (if src = csrc \<and> dst = cdst then []
      else if src = BLEND_FUNC_NONE \<or> dst = BLEND_FUNC_NONE then [glDisable GL_BLEND]
      else if csrc = BLEND_FUNC_NONE \<or> cdst = BLEND_FUNC_NONE
        then [glEnable GL_BLEND, glBlendFunc src dst]
      else [glBlendFunc src dst])"

definition scissor_calls ::
  "bool \<Rightarrow> GLuint \<Rightarrow> GLuint \<Rightarrow> GLuint \<Rightarrow> GLuint \<Rightarrow> bool \<Rightarrow> gl_call list" where
  "scissor_calls enable x y w h enabled =
     (if \<not> enable then (if enabled then [glDisable GL_SCISSOR_TEST] else [])
      else (if enabled then [] else [glEnable GL_SCISSOR_TEST]) @ [glScissor x y w h])"

definition culling_calls :: "FaceCulling \<Rightarrow> FaceCulling \<Rightarrow> gl_call list" where
  "culling_calls fc cur =
     (if fc = cur then []
      else if fc = FACE_CULL_NONE then [glDisable GL_CULL_FACE]
      else if cur = FACE_CULL_NONE then [glEnable GL_CULL_FACE, glCullFace fc]
      else [glCullFace fc])"

definition depth_calls :: "bool \<Rightarrow> DrawFunc \<Rightarrow> bool \<Rightarrow> DrawFunc \<Rightarrow> gl_call list" where
  "depth_calls w df cw cdf =
     (if w = cw then [] else [glDepthMask w]) @ (if df = cdf then [] else [glDepthFunc df])"

definition shader_calls :: "GLuint \<Rightarrow> GLuint \<Rightarrow> gl_call list" where
  "shader_calls shader bound = (if shader = bound then [] else [glUseProgram shader])"

definition vertex_array_calls :: "GLuint \<Rightarrow> GLuint \<Rightarrow> gl_call list" where
  "vertex_array_calls vao bound = (if vao = bound then [] else [glBindVertexArray vao])"

text \<open>
  The step of \<^verbatim>\<open>Draw\<close> that issues a call: 0 binds the target, 1 sets the viewport,
  2 to 5 apply the draw parameters (blending, scissor test, face culling, depth test),
  6 binds the shader, 7 binds the vertex array, 8 draws. Every other call is 9.
\<close>

fun stage :: "gl_call \<Rightarrow> nat" where
  "stage (glBindFramebuffer fbo) = 0"
| "stage (glViewport x y w h) = 1"
| "stage (glEnable GL_BLEND) = 2"
| "stage (glDisable GL_BLEND) = 2"
| "stage (glBlendFunc src dst) = 2"
| "stage (glEnable GL_SCISSOR_TEST) = 3"
| "stage (glDisable GL_SCISSOR_TEST) = 3"
| "stage (glScissor x y w h) = 3"
| "stage (glEnable GL_CULL_FACE) = 4"
| "stage (glDisable GL_CULL_FACE) = 4"
| "stage (glCullFace fc) = 4"
| "stage (glDepthMask b) = 5"
| "stage (glDepthFunc df) = 5"
| "stage (glUseProgram shader) = 6"
| "stage (glBindVertexArray vao) = 7"
| "stage (glDrawElements p n) = 8"
| "stage (glDrawElementsInstanced p n k) = 8"
| "stage c = 9"

section \<open>Example inputs\<close>

definition example_driver :: driver where
  "example_driver =
     \<lparr>drvGenBuffers = (\<lambda>i. 7 + of_nat i), drvGenVertexArrays = 3, drvGenTextures = 5,
      drvCreateProgram = 9,
      drvCreateShader = (\<lambda>t. case t of GL_VERTEX_SHADER \<Rightarrow> 10 | GL_FRAGMENT_SHADER \<Rightarrow> 11),
      drvStatus = (\<lambda>obj flag. True), drvMajorVersion = 3, drvMinorVersion = 3,
      drvActiveAttributes = [], drvActiveUniformBlocks = [(''Matrices'', 0)],
      drvActiveUniforms = [(GL_SAMPLER_2D, ''diffuse'', 0)]\<rparr>"

definition example_device :: device where
  "example_device = OpenGLRenderDevice 640 480 0 0"

definition example_parameters :: DrawParameters where
  "example_parameters =
     \<lparr>primitiveType = 4, faceCulling = FACE_CULL_BACK, depthFunc = DRAW_FUNC_OTHER 0x0201,
      shouldWriteDepth = True, useScissorTest = False, scissorStartX = 0, scissorStartY = 0,
      scissorWidth = 0, scissorHeight = 0, sourceBlend = BLEND_FUNC_NONE,
      destBlend = BLEND_FUNC_NONE\<rparr>"

definition example_source :: string where
  "example_source = ''#version 330'' @ [newline] @ ''uniform sampler2D diffuse;''"

definition example_source_without_version :: string where
  "example_source_without_version = ''void main() {}'' @ [newline]"

text \<open>
  A vertex array with two vertex components of 3 and 5 floats and an instance component
  of 16 floats, for 4 vertices and 6 indices, and the device after its creation.
\<close>

definition example_vertex_array :: "(GLuint \<times> device) option" where
  "example_vertex_array =
     CreateVertexArray example_driver None [3, 5, 16] 2 1 4 0 6 USAGE_STATIC_DRAW example_device"

definition example_vertex_array_device :: device where
  "example_vertex_array_device =
     (case example_vertex_array of Some (vao, s) \<Rightarrow> s | None \<Rightarrow> example_device)"

text \<open>
  The example device after a draw to the unregistered target 7 and the release of the
  record that the draw left behind.
\<close>

definition example_stale_viewport :: device where
  "example_stale_viewport =
     snd (ReleaseRenderTarget 7 (Draw 7 0 0 example_parameters 1 0 example_device))"

section \<open>Properties of the state cache and of the draw dispatcher\<close>

text \<open>
  Claim C3, as amended. Framebuffer, vertex array, shader, face culling, depth test,
  blending, stencil test, stencil write mask and the two pixel-store alignments: set
  again to the cached values, each returns the device as it was, with no call issued.
  The scissor test caches its flag only: disabling it while disabled issues nothing,
  and enabling it while enabled leaves the cache as it was but issues \<^verbatim>\<open>glScissor\<close>
  with the given rectangle again.
\<close>

theorem repeated_Set_cached:
  "SetFBO (boundFBO s) s = s \<and> SetVAO (boundVAO s) s = s \<and> SetShader (boundShader s) s = s
   \<and> SetFaceCulling (currentFaceCulling s) s = s
   \<and> SetDepthTest (device.shouldWriteDepth s) (currentDepthFunc s) s = s
   \<and> SetBlending (currentSourceBlend s) (currentDestBlend s) s = s
   \<and> SetStencilTest (stencilTestEnabled s) (currentStencilFunc s) (currentStencilTestMask s)
        (currentStencilWriteMask s) (currentStencilComparisonVal s) (currentStencilFail s)
        (currentStencilPassButDepthFail s) (currentStencilPass s) s = s
   \<and> SetStencilWriteMask (currentStencilWriteMask s) s = s
   \<and> pixel_store_alignment (currentPackAlignment s) (currentUnpackAlignment s) s = s
   \<and> SetScissorTest (scissorTestEnabled s) startX startY w h s =
        (if scissorTestEnabled s then s\<lparr>issued := issued s @ [glScissor startX startY w h]\<rparr>
         else s)"
  by (simp add: SetFBO_def SetVAO_def SetShader_def SetFaceCulling_def SetDepthTest_def
      SetBlending_def SetStencilTest_def SetStencilWriteMask_def pixel_store_alignment_def
      SetScissorTest_def emit_def)

theorem repeated_Set_cached_witness:
  "SetFBO 0 example_device = example_device
   \<and> SetStencilTest False DRAW_FUNC_ALWAYS 0xFFFFFFFF 0xFFFFFFFF 0 STENCIL_KEEP STENCIL_KEEP
        STENCIL_KEEP example_device = example_device
   \<and> SetBlending BLEND_FUNC_NONE BLEND_FUNC_NONE example_device = example_device
   \<and> SetScissorTest False 0 0 16 16 example_device = example_device
   \<and> scissorTestEnabled (SetScissorTest True 0 0 16 16 example_device)
   \<and> SetScissorTest True 0 0 16 16 (SetScissorTest True 0 0 16 16 example_device)
       = (SetScissorTest True 0 0 16 16 example_device)
           \<lparr>issued := issued (SetScissorTest True 0 0 16 16 example_device)
                        @ [glScissor 0 0 16 16]\<rparr>"
proof -
  have e: "scissorTestEnabled (SetScissorTest True 0 0 16 16 example_device)"
    by (simp add: SetScissorTest_def emit_def)
  have c: "boundFBO example_device = 0"
    "stencilTestEnabled example_device = False"
    "currentStencilFunc example_device = DRAW_FUNC_ALWAYS"
    "currentStencilTestMask example_device = 0xFFFFFFFF"
    "currentStencilWriteMask example_device = 0xFFFFFFFF"
    "currentStencilComparisonVal example_device = 0"
    "currentStencilFail example_device = STENCIL_KEEP"
    "currentStencilPassButDepthFail example_device = STENCIL_KEEP"
    "currentStencilPass example_device = STENCIL_KEEP"
    "currentSourceBlend example_device = BLEND_FUNC_NONE"
    "currentDestBlend example_device = BLEND_FUNC_NONE"
    "scissorTestEnabled example_device = False"
    by (simp_all add: example_device_def OpenGLRenderDevice_def)
  show ?thesis
    using e repeated_Set_cached [of example_device 0 0 16 16]
      repeated_Set_cached [of "SetScissorTest True 0 0 16 16 example_device" 0 0 16 16]
    by (simp add: c)
qed

text \<open>
  Claim C3 as stated fails for the scissor test: enabled with a rectangle and then set
  to the same values again, it issues \<^verbatim>\<open>glScissor\<close> a second time.
\<close>

theorem repeated_Set_cached_counterexample:
  "issued (SetScissorTest True 0 0 16 16 (SetScissorTest True 0 0 16 16 example_device))
     = issued (SetScissorTest True 0 0 16 16 example_device) @ [glScissor 0 0 16 16]"
  by (simp add: SetScissorTest_def emit_def)


lemma sorted_map_const:
  "\<forall>c\<in>set xs. f c = (k::nat) \<Longrightarrow> sorted (map f xs)"
  by (induction xs) auto

lemma SetFBO_shape:
  "SetFBO fbo s = s\<lparr>boundFBO := fbo, issued := issued s @ calls_between s (SetFBO fbo s)\<rparr>
   \<and> (\<forall>c\<in>set (calls_between s (SetFBO fbo s)). stage c = 0)"
  by (simp add: SetFBO_def emit_def calls_between_def)

lemma SetViewport_shape:
  "SetViewport fbo s =
     s\<lparr>fboMap := snd (subscript (fboMap s) fbo FBOData0), viewportFBO := fbo,
       viewportWidth := width (fst (subscript (fboMap s) fbo FBOData0)),
       viewportHeight := height (fst (subscript (fboMap s) fbo FBOData0)),
       issued := issued s @ calls_between s (SetViewport fbo s)\<rparr>
   \<and> (\<forall>c\<in>set (calls_between s (SetViewport fbo s)). stage c = 1)"
  by (simp add: SetViewport_def emit_def calls_between_def Let_def split: prod.splits)

lemma SetShader_shape:
  "SetShader shader s =
     s\<lparr>boundShader := shader, issued := issued s @ calls_between s (SetShader shader s)\<rparr>
   \<and> (\<forall>c\<in>set (calls_between s (SetShader shader s)). stage c = 6)"
  by (simp add: SetShader_def emit_def calls_between_def)

lemma SetVAO_shape:
  "SetVAO vao s = s\<lparr>boundVAO := vao, issued := issued s @ calls_between s (SetVAO vao s)\<rparr>
   \<and> (\<forall>c\<in>set (calls_between s (SetVAO vao s)). stage c = 7)"
  by (simp add: SetVAO_def emit_def calls_between_def)

lemma SetBlending_shape:
  "SetBlending src dst s =
     s\<lparr>currentSourceBlend := src, currentDestBlend := dst,
       issued := issued s @ calls_between s (SetBlending src dst s)\<rparr>
   \<and> (\<forall>c\<in>set (calls_between s (SetBlending src dst s)). stage c = 2)"
  by (simp add: SetBlending_def emit_def calls_between_def)

lemma SetScissorTest_shape:
  "SetScissorTest enable x y w h s =
     s\<lparr>scissorTestEnabled := enable,
       issued := issued s @ calls_between s (SetScissorTest enable x y w h s)\<rparr>
   \<and> (\<forall>c\<in>set (calls_between s (SetScissorTest enable x y w h s)). stage c = 3)"
  by (simp add: SetScissorTest_def emit_def calls_between_def)

lemma SetFaceCulling_shape:
  "SetFaceCulling fc s =
     s\<lparr>currentFaceCulling := fc, issued := issued s @ calls_between s (SetFaceCulling fc s)\<rparr>
   \<and> (\<forall>c\<in>set (calls_between s (SetFaceCulling fc s)). stage c = 4)"
  by (simp add: SetFaceCulling_def emit_def calls_between_def)

lemma SetDepthTest_shape:
  "SetDepthTest b df s =
     s\<lparr>device.shouldWriteDepth := b, currentDepthFunc := df,
       issued := issued s @ calls_between s (SetDepthTest b df s)\<rparr>
   \<and> (\<forall>c\<in>set (calls_between s (SetDepthTest b df s)). stage c = 5)"
  by (simp add: SetDepthTest_def emit_def calls_between_def)

lemma SetDrawParameters_shape:
  "SetDrawParameters dp s =
     s\<lparr>currentSourceBlend := sourceBlend dp, currentDestBlend := destBlend dp,
       scissorTestEnabled := useScissorTest dp, currentFaceCulling := faceCulling dp,
       device.shouldWriteDepth := DrawParameters.shouldWriteDepth dp,
       currentDepthFunc := depthFunc dp,
       issued := issued s @ calls_between s (SetDrawParameters dp s)\<rparr>
   \<and> sorted (map stage (calls_between s (SetDrawParameters dp s)))
   \<and> (\<forall>c\<in>set (calls_between s (SetDrawParameters dp s)). 2 \<le> stage c \<and> stage c \<le> 5)"
proof -
  define s1 where "s1 = SetBlending (sourceBlend dp) (destBlend dp) s"
  define s2 where "s2 = SetScissorTest (useScissorTest dp) (scissorStartX dp) (scissorStartY dp)
                 (scissorWidth dp) (scissorHeight dp) s1"
  define s3 where "s3 = SetFaceCulling (faceCulling dp) s2"
  define s4 where "s4 = SetDepthTest (DrawParameters.shouldWriteDepth dp) (depthFunc dp) s3"
  define x1 where "x1 = calls_between s s1"
  define x2 where "x2 = calls_between s1 s2"
  define x3 where "x3 = calls_between s2 s3"
  define x4 where "x4 = calls_between s3 s4"
  have e1: "s1 = s\<lparr>currentSourceBlend := sourceBlend dp, currentDestBlend := destBlend dp,
                   issued := issued s @ x1\<rparr>" and g1: "\<forall>c\<in>set x1. stage c = 2"
    using SetBlending_shape [of "sourceBlend dp" "destBlend dp" s] by (simp_all add: s1_def x1_def)
  have e2: "s2 = s1\<lparr>scissorTestEnabled := useScissorTest dp, issued := issued s1 @ x2\<rparr>"
    and g2: "\<forall>c\<in>set x2. stage c = 3"
    using SetScissorTest_shape [of "useScissorTest dp" "scissorStartX dp" "scissorStartY dp"
        "scissorWidth dp" "scissorHeight dp" s1] by (simp_all add: s2_def x2_def)
  have e3: "s3 = s2\<lparr>currentFaceCulling := faceCulling dp, issued := issued s2 @ x3\<rparr>"
    and g3: "\<forall>c\<in>set x3. stage c = 4"
    using SetFaceCulling_shape [of "faceCulling dp" s2] by (simp_all add: s3_def x3_def)
  have e4: "s4 = s3\<lparr>device.shouldWriteDepth := DrawParameters.shouldWriteDepth dp,
                    currentDepthFunc := depthFunc dp, issued := issued s3 @ x4\<rparr>"
    and g4: "\<forall>c\<in>set x4. stage c = 5"
    using SetDepthTest_shape [of "DrawParameters.shouldWriteDepth dp" "depthFunc dp" s3]
    by (simp_all add: s4_def x4_def)
  have "SetDrawParameters dp s = s4"
    by (simp add: SetDrawParameters_def s1_def s2_def s3_def s4_def)
  also have "s4 = s\<lparr>currentSourceBlend := sourceBlend dp, currentDestBlend := destBlend dp,
            scissorTestEnabled := useScissorTest dp, currentFaceCulling := faceCulling dp,
            device.shouldWriteDepth := DrawParameters.shouldWriteDepth dp,
            currentDepthFunc := depthFunc dp, issued := issued s @ (x1 @ x2 @ x3 @ x4)\<rparr>"
    by (simp add: e4 e3 e2 e1)
  finally have eq: "SetDrawParameters dp s = s\<lparr>currentSourceBlend := sourceBlend dp,
            currentDestBlend := destBlend dp,
            scissorTestEnabled := useScissorTest dp, currentFaceCulling := faceCulling dp,
            device.shouldWriteDepth := DrawParameters.shouldWriteDepth dp,
            currentDepthFunc := depthFunc dp, issued := issued s @ (x1 @ x2 @ x3 @ x4)\<rparr>" .
  have cb: "calls_between s (SetDrawParameters dp s) = x1 @ x2 @ x3 @ x4"
    by (simp add: eq calls_between_def)
  have "sorted (map stage (x1 @ x2 @ x3 @ x4))"
    using g1 g2 g3 g4 sorted_map_const [of x1 stage 2] sorted_map_const [of x2 stage 3]
      sorted_map_const [of x3 stage 4] sorted_map_const [of x4 stage 5]
    by (auto simp: sorted_append)
  moreover have "\<forall>c\<in>set (x1 @ x2 @ x3 @ x4). 2 \<le> stage c \<and> stage c \<le> 5"
    using g1 g2 g3 g4 by auto
  ultimately show ?thesis
    using eq cb by simp
qed

lemma Draw_shape:
  assumes "numInstances \<noteq> 0"
  shows "Draw fbo shader vao dp numInstances numElems s =
     s\<lparr>boundFBO := fbo,
       fboMap := snd (subscript (fboMap s) fbo FBOData0), viewportFBO := fbo,
       viewportWidth := width (fst (subscript (fboMap s) fbo FBOData0)),
       viewportHeight := height (fst (subscript (fboMap s) fbo FBOData0)),
       currentSourceBlend := sourceBlend dp, currentDestBlend := destBlend dp,
       scissorTestEnabled := useScissorTest dp, currentFaceCulling := faceCulling dp,
       device.shouldWriteDepth := DrawParameters.shouldWriteDepth dp,
       currentDepthFunc := depthFunc dp,
       boundShader := shader, boundVAO := vao,
       issued := issued s
         @ calls_between s (SetFBO fbo s)
         @ calls_between (SetFBO fbo s) (SetViewport fbo (SetFBO fbo s))
         @ calls_between (SetViewport fbo (SetFBO fbo s))
             (SetDrawParameters dp (SetViewport fbo (SetFBO fbo s)))
         @ calls_between (SetDrawParameters dp (SetViewport fbo (SetFBO fbo s)))
             (SetShader shader (SetDrawParameters dp (SetViewport fbo (SetFBO fbo s))))
         @ calls_between
             (SetShader shader (SetDrawParameters dp (SetViewport fbo (SetFBO fbo s))))
             (SetVAO vao
               (SetShader shader (SetDrawParameters dp (SetViewport fbo (SetFBO fbo s)))))
         @ [if numInstances = 1 then glDrawElements (primitiveType dp) numElems
            else glDrawElementsInstanced (primitiveType dp) numElems numInstances]\<rparr>"
proof -
  define s1 where "s1 = SetFBO fbo s"
  define s2 where "s2 = SetViewport fbo s1"
  define s3 where "s3 = SetDrawParameters dp s2"
  define s4 where "s4 = SetShader shader s3"
  define s5 where "s5 = SetVAO vao s4"
  define x1 where "x1 = calls_between s s1"
  define x2 where "x2 = calls_between s1 s2"
  define x3 where "x3 = calls_between s2 s3"
  define x4 where "x4 = calls_between s3 s4"
  define x5 where "x5 = calls_between s4 s5"
  have e1: "s1 = s\<lparr>boundFBO := fbo, issued := issued s @ x1\<rparr>"
    using SetFBO_shape [of fbo s] by (simp add: s1_def x1_def)
  have e2: "s2 = s1\<lparr>fboMap := snd (subscript (fboMap s1) fbo FBOData0), viewportFBO := fbo,
            viewportWidth := width (fst (subscript (fboMap s1) fbo FBOData0)),
            viewportHeight := height (fst (subscript (fboMap s1) fbo FBOData0)),
            issued := issued s1 @ x2\<rparr>"
    using SetViewport_shape [of fbo s1] by (simp add: s2_def x2_def)
  have e3: "s3 = s2\<lparr>currentSourceBlend := sourceBlend dp,
            currentDestBlend := destBlend dp,
            scissorTestEnabled := useScissorTest dp, currentFaceCulling := faceCulling dp,
            device.shouldWriteDepth := DrawParameters.shouldWriteDepth dp,
            currentDepthFunc := depthFunc dp, issued := issued s2 @ x3\<rparr>"
    using SetDrawParameters_shape [of dp s2] by (simp add: s3_def x3_def)
  have e4: "s4 = s3\<lparr>boundShader := shader, issued := issued s3 @ x4\<rparr>"
    using SetShader_shape [of shader s3] by (simp add: s4_def x4_def)
  have e5: "s5 = s4\<lparr>boundVAO := vao, issued := issued s4 @ x5\<rparr>"
    using SetVAO_shape [of vao s4] by (simp add: s5_def x5_def)
  have "Draw fbo shader vao dp numInstances numElems s =
          emit (if numInstances = 1 then glDrawElements (primitiveType dp) numElems
               else glDrawElementsInstanced (primitiveType dp) numElems numInstances) s5"
    using assms by (simp add: Draw_def s1_def s2_def s3_def s4_def s5_def)
  also have "\<dots> = s\<lparr>boundFBO := fbo,
            fboMap := snd (subscript (fboMap s) fbo FBOData0), viewportFBO := fbo,
            viewportWidth := width (fst (subscript (fboMap s) fbo FBOData0)),
            viewportHeight := height (fst (subscript (fboMap s) fbo FBOData0)),
            currentSourceBlend := sourceBlend dp, currentDestBlend := destBlend dp,
            scissorTestEnabled := useScissorTest dp, currentFaceCulling := faceCulling dp,
            device.shouldWriteDepth := DrawParameters.shouldWriteDepth dp,
            currentDepthFunc := depthFunc dp,
            boundShader := shader, boundVAO := vao,
            issued := issued s @ x1 @ x2 @ x3 @ x4 @ x5 @
              [if numInstances = 1 then glDrawElements (primitiveType dp) numElems
               else glDrawElementsInstanced (primitiveType dp) numElems numInstances]\<rparr>"
    by (simp add: emit_def e5 e4 e3 e2 e1)
  finally show ?thesis
    unfolding x1_def x2_def x3_def x4_def x5_def s5_def s4_def s3_def s2_def s1_def .
qed

lemma SetFBO_calls:
  "SetFBO fbo s = s\<lparr>boundFBO := fbo, issued := issued s @ target_calls fbo (boundFBO s)\<rparr>"
  by (simp add: SetFBO_def emit_def target_calls_def)

lemma SetViewport_calls:
  "SetViewport fbo s =
     s\<lparr>fboMap := (fboMap s)(fbo \<mapsto> target_record (fboMap s) fbo), viewportFBO := fbo,
       viewportWidth := width (target_record (fboMap s) fbo),
       viewportHeight := height (target_record (fboMap s) fbo),
       issued := issued s @ viewport_calls fbo (target_record (fboMap s) fbo)
                   (viewportFBO s) (viewportWidth s) (viewportHeight s)\<rparr>"
  by (cases "fboMap s fbo")
     (simp_all add: SetViewport_def emit_def viewport_calls_def target_record_def subscript_def
        FBOData0_def Let_def fun_upd_idem)

lemma SetBlending_calls:
  "SetBlending src dst s =
     s\<lparr>currentSourceBlend := src, currentDestBlend := dst,
       issued := issued s @ blending_calls src dst (currentSourceBlend s) (currentDestBlend s)\<rparr>"
  by (simp add: SetBlending_def emit_def blending_calls_def)

lemma SetScissorTest_calls:
  "SetScissorTest enable x y w h s =
     s\<lparr>scissorTestEnabled := enable,
       issued := issued s @ scissor_calls enable x y w h (scissorTestEnabled s)\<rparr>"
  by (simp add: SetScissorTest_def emit_def scissor_calls_def)

lemma SetFaceCulling_calls:
  "SetFaceCulling fc s =
     s\<lparr>currentFaceCulling := fc,
       issued := issued s @ culling_calls fc (currentFaceCulling s)\<rparr>"
  by (simp add: SetFaceCulling_def emit_def culling_calls_def)

lemma SetDepthTest_calls:
  "SetDepthTest w df s =
     s\<lparr>device.shouldWriteDepth := w, currentDepthFunc := df,
       issued := issued s @ depth_calls w df (device.shouldWriteDepth s) (currentDepthFunc s)\<rparr>"
  by (simp add: SetDepthTest_def emit_def depth_calls_def)

lemma SetShader_calls:
  "SetShader shader s =
     s\<lparr>boundShader := shader, issued := issued s @ shader_calls shader (boundShader s)\<rparr>"
  by (simp add: SetShader_def emit_def shader_calls_def)

lemma SetVAO_calls:
  "SetVAO vao s =
     s\<lparr>boundVAO := vao, issued := issued s @ vertex_array_calls vao (boundVAO s)\<rparr>"
  by (simp add: SetVAO_def emit_def vertex_array_calls_def)

text \<open>
  Claim C8. \<^verbatim>\<open>Draw\<close> with an instance count of 0 returns the device as it was: no call
  is issued, no cached value and no registry changes. With any other instance count the
  calls it issues are exactly, in this order, those that bind the target, set the
  viewport to the target's recorded size, apply the draw parameters (blending, scissor
  test, face culling, depth test), bind the shader and bind the vertex array, each as
  far as the cache requires it, followed by exactly one draw call, which is
  \<^verbatim>\<open>glDrawElements\<close> for one instance and \<^verbatim>\<open>glDrawElementsInstanced\<close> otherwise;
  afterwards the cache holds the target, the viewport, the draw parameters, the shader
  and the vertex array of the call, the registry holds a record for the target, and
  nothing else has changed.
\<close>

theorem Draw_sequence:
  "Draw fbo shader vao dp 0 numElems s = s \<and>
   (numInstances \<noteq> 0 \<longrightarrow>
     Draw fbo shader vao dp numInstances numElems s =
       s\<lparr>boundFBO := fbo,
         fboMap := (fboMap s)(fbo \<mapsto> target_record (fboMap s) fbo),
         viewportFBO := fbo,
         viewportWidth := width (target_record (fboMap s) fbo),
         viewportHeight := height (target_record (fboMap s) fbo),
         currentSourceBlend := sourceBlend dp, currentDestBlend := destBlend dp,
         scissorTestEnabled := useScissorTest dp,
         currentFaceCulling := faceCulling dp,
         device.shouldWriteDepth := DrawParameters.shouldWriteDepth dp,
         currentDepthFunc := depthFunc dp,
         boundShader := shader, boundVAO := vao,
         issued := issued s
           @ target_calls fbo (boundFBO s)
           @ viewport_calls fbo (target_record (fboMap s) fbo)
               (viewportFBO s) (viewportWidth s) (viewportHeight s)
           @ blending_calls (sourceBlend dp) (destBlend dp)
               (currentSourceBlend s) (currentDestBlend s)
           @ scissor_calls (useScissorTest dp) (scissorStartX dp) (scissorStartY dp)
               (scissorWidth dp) (scissorHeight dp) (scissorTestEnabled s)
           @ culling_calls (faceCulling dp) (currentFaceCulling s)
           @ depth_calls (DrawParameters.shouldWriteDepth dp) (depthFunc dp)
               (device.shouldWriteDepth s) (currentDepthFunc s)
           @ shader_calls shader (boundShader s)
           @ vertex_array_calls vao (boundVAO s)
           @ [if numInstances = 1 then glDrawElements (primitiveType dp) numElems
              else glDrawElementsInstanced (primitiveType dp) numElems numInstances]\<rparr>)"
  by (simp add: Draw_def SetDrawParameters_def SetFBO_calls SetViewport_calls SetBlending_calls
      SetScissorTest_calls SetFaceCulling_calls SetDepthTest_calls SetShader_calls SetVAO_calls
      emit_def Let_def)

theorem Draw_sequence_witness:
  "(2::GLuint) \<noteq> 0
   \<and> Draw 0 9 3 example_parameters 0 36 example_device = example_device
   \<and> issued (Draw 0 9 3 example_parameters 2 36 example_device) =
       issued example_device @
       [glViewport 0 0 640 480, glEnable GL_CULL_FACE, glCullFace FACE_CULL_BACK,
        glDepthMask True, glDepthFunc (DRAW_FUNC_OTHER 0x0201), glUseProgram 9,
        glBindVertexArray 3, glDrawElementsInstanced 4 36 2]
   \<and> boundShader (Draw 0 9 3 example_parameters 2 36 example_device) = 9
   \<and> boundVAO (Draw 0 9 3 example_parameters 2 36 example_device) = 3"
proof -
  have c: "boundFBO example_device = 0" "fboMap example_device 0 = Some \<lparr>width = 640, height = 480\<rparr>"
    "viewportFBO example_device = 0" "viewportWidth example_device = 0"
    "viewportHeight example_device = 0"
    "currentSourceBlend example_device = BLEND_FUNC_NONE"
    "currentDestBlend example_device = BLEND_FUNC_NONE"
    "scissorTestEnabled example_device = False"
    "currentFaceCulling example_device = FACE_CULL_NONE"
    "device.shouldWriteDepth example_device = False"
    "currentDepthFunc example_device = DRAW_FUNC_ALWAYS"
    "boundShader example_device = 0" "boundVAO example_device = 0"
    by (simp_all add: example_device_def OpenGLRenderDevice_def)
  have p: "primitiveType example_parameters = 4"
    "faceCulling example_parameters = FACE_CULL_BACK"
    "depthFunc example_parameters = DRAW_FUNC_OTHER 0x0201"
    "DrawParameters.shouldWriteDepth example_parameters = True"
    "useScissorTest example_parameters = False"
    "sourceBlend example_parameters = BLEND_FUNC_NONE"
    "destBlend example_parameters = BLEND_FUNC_NONE"
    by (simp_all add: example_parameters_def)
  have n: "(2::GLuint) \<noteq> 0" by simp
  from Draw_sequence [where numInstances = 2 and fbo = 0 and shader = 9 and vao = 3
      and dp = example_parameters and numElems = 36 and s = example_device] n
  have d: "Draw 0 9 3 example_parameters 0 36 example_device = example_device"
    and e: "Draw 0 9 3 example_parameters 2 36 example_device =
       example_device\<lparr>boundFBO := 0,
         fboMap := (fboMap example_device)(0 \<mapsto> target_record (fboMap example_device) 0),
         viewportFBO := 0,
         viewportWidth := width (target_record (fboMap example_device) 0),
         viewportHeight := height (target_record (fboMap example_device) 0),
         currentSourceBlend := sourceBlend example_parameters,
         currentDestBlend := destBlend example_parameters,
         scissorTestEnabled := useScissorTest example_parameters,
         currentFaceCulling := faceCulling example_parameters,
         device.shouldWriteDepth := DrawParameters.shouldWriteDepth example_parameters,
         currentDepthFunc := depthFunc example_parameters,
         boundShader := 9, boundVAO := 3,
         issued := issued example_device
           @ target_calls 0 (boundFBO example_device)
           @ viewport_calls 0 (target_record (fboMap example_device) 0)
               (viewportFBO example_device) (viewportWidth example_device)
               (viewportHeight example_device)
           @ blending_calls (sourceBlend example_parameters) (destBlend example_parameters)
               (currentSourceBlend example_device) (currentDestBlend example_device)
           @ scissor_calls (useScissorTest example_parameters) (scissorStartX example_parameters)
               (scissorStartY example_parameters) (scissorWidth example_parameters)
               (scissorHeight example_parameters) (scissorTestEnabled example_device)
           @ culling_calls (faceCulling example_parameters) (currentFaceCulling example_device)
           @ depth_calls (DrawParameters.shouldWriteDepth example_parameters)
               (depthFunc example_parameters)
               (device.shouldWriteDepth example_device) (currentDepthFunc example_device)
           @ shader_calls 9 (boundShader example_device)
           @ vertex_array_calls 3 (boundVAO example_device)
           @ [if (2::GLuint) = 1 then glDrawElements (primitiveType example_parameters) 36
              else glDrawElementsInstanced (primitiveType example_parameters) 36 2]\<rparr>"
    by blast+
  show ?thesis
    by (simp add: d e c p target_calls_def viewport_calls_def target_record_def
        blending_calls_def scissor_calls_def culling_calls_def depth_calls_def
        shader_calls_def vertex_array_calls_def)
qed

lemma example_draw_calls:
  "calls_between example_device (Draw 0 9 3 example_parameters 2 36 example_device) =
     [glViewport 0 0 640 480, glEnable GL_CULL_FACE, glCullFace FACE_CULL_BACK,
      glDepthMask True, glDepthFunc (DRAW_FUNC_OTHER 0x0201), glUseProgram 9,
      glBindVertexArray 3, glDrawElementsInstanced 4 36 2]"
  by (simp add: calls_between_def Draw_def SetFBO_def SetViewport_def SetDrawParameters_def
      SetBlending_def SetScissorTest_def SetFaceCulling_def SetDepthTest_def SetShader_def
      SetVAO_def emit_def subscript_def example_device_def example_parameters_def
      OpenGLRenderDevice_def Let_def)

lemma SetViewport_absent:
  assumes "fboMap s fbo = None"
  shows "SetViewport fbo s =
     s\<lparr>fboMap := (fboMap s)(fbo \<mapsto> \<lparr>width = 0, height = 0\<rparr>), viewportFBO := fbo,
       viewportWidth := 0, viewportHeight := 0,
       issued := issued s @
         (if viewportFBO s = fbo \<and> viewportWidth s = 0 \<and> viewportHeight s = 0 then []
          else [glViewport 0 0 0 0])\<rparr>"
  using assms by (auto simp: SetViewport_def subscript_def FBOData0_def emit_def)

text \<open>
  Claim C10, as amended. For a handle with no record in the render-target registry,
  \<^verbatim>\<open>SetViewport\<close> inserts a value-initialised record (width 0, height 0) for it and
  leaves the cached viewport at that handle with width 0 and height 0; it issues
  \<^verbatim>\<open>glViewport(0, 0, 0, 0)\<close> unless the cache already held exactly these values, and
  then it issues nothing. \<^verbatim>\<open>Draw\<close> to such a handle with an instance count other than
  0 does the same, the viewport call coming right after the call that binds the target;
  with an instance count of 0 it changes nothing.
\<close>

theorem SetViewport_unregistered:
  "fboMap s fbo = None \<Longrightarrow>
   SetViewport fbo s =
     s\<lparr>fboMap := (fboMap s)(fbo \<mapsto> \<lparr>width = 0, height = 0\<rparr>), viewportFBO := fbo,
       viewportWidth := 0, viewportHeight := 0,
       issued := issued s @
         (if viewportFBO s = fbo \<and> viewportWidth s = 0 \<and> viewportHeight s = 0 then []
          else [glViewport 0 0 0 0])\<rparr>
   \<and> Draw fbo shader vao dp 0 numElems s = s
   \<and> (numInstances \<noteq> 0 \<longrightarrow>
        fboMap (Draw fbo shader vao dp numInstances numElems s)
          = (fboMap s)(fbo \<mapsto> \<lparr>width = 0, height = 0\<rparr>)
        \<and> viewportFBO (Draw fbo shader vao dp numInstances numElems s) = fbo
        \<and> viewportWidth (Draw fbo shader vao dp numInstances numElems s) = 0
        \<and> viewportHeight (Draw fbo shader vao dp numInstances numElems s) = 0
        \<and> (\<exists>before after.
              issued (Draw fbo shader vao dp numInstances numElems s) =
                issued s @ before @
                  (if viewportFBO s = fbo \<and> viewportWidth s = 0 \<and> viewportHeight s = 0
                   then [] else [glViewport 0 0 0 0]) @ after
              \<and> (\<forall>c\<in>set before. stage c = 0) \<and> (\<forall>c\<in>set after. 1 < stage c)))"
proof (intro conjI impI)
  assume absent: "fboMap s fbo = None"
  show "SetViewport fbo s =
     s\<lparr>fboMap := (fboMap s)(fbo \<mapsto> \<lparr>width = 0, height = 0\<rparr>), viewportFBO := fbo,
       viewportWidth := 0, viewportHeight := 0,
       issued := issued s @
         (if viewportFBO s = fbo \<and> viewportWidth s = 0 \<and> viewportHeight s = 0 then []
          else [glViewport 0 0 0 0])\<rparr>"
    by (rule SetViewport_absent [OF absent])
  show "Draw fbo shader vao dp 0 numElems s = s"
    by (simp add: Draw_def)
  assume n: "numInstances \<noteq> 0"
  have sub: "subscript (fboMap s) fbo FBOData0
               = (\<lparr>width = 0, height = 0\<rparr>, (fboMap s)(fbo \<mapsto> \<lparr>width = 0, height = 0\<rparr>))"
    using absent by (simp add: subscript_def FBOData0_def)
  show "fboMap (Draw fbo shader vao dp numInstances numElems s)
          = (fboMap s)(fbo \<mapsto> \<lparr>width = 0, height = 0\<rparr>)"
    by (simp add: Draw_shape [OF n] sub)
  show "viewportFBO (Draw fbo shader vao dp numInstances numElems s) = fbo"
    by (simp add: Draw_shape [OF n])
  show "viewportWidth (Draw fbo shader vao dp numInstances numElems s) = 0"
    by (simp add: Draw_shape [OF n] sub)
  show "viewportHeight (Draw fbo shader vao dp numInstances numElems s) = 0"
    by (simp add: Draw_shape [OF n] sub)
  define s1 where "s1 = SetFBO fbo s"
  define s2 where "s2 = SetViewport fbo s1"
  define s3 where "s3 = SetDrawParameters dp s2"
  define s4 where "s4 = SetShader shader s3"
  define s5 where "s5 = SetVAO vao s4"
  define after where "after = calls_between s2 s3 @ calls_between s3 s4 @ calls_between s4 s5 @
     [if numInstances = 1 then glDrawElements (primitiveType dp) numElems
      else glDrawElementsInstanced (primitiveType dp) numElems numInstances]"
  have e1: "s1 = s\<lparr>boundFBO := fbo, issued := issued s @ calls_between s s1\<rparr>"
    and g1: "\<forall>c\<in>set (calls_between s s1). stage c = 0"
    using SetFBO_shape [of fbo s] by (simp_all add: s1_def)
  have absent1: "fboMap s1 fbo = None"
    by (subst e1) (simp add: absent)
  have v1: "viewportFBO s1 = viewportFBO s" "viewportWidth s1 = viewportWidth s"
    "viewportHeight s1 = viewportHeight s"
    by (subst e1, simp)+
  have x2: "calls_between s1 s2 =
     (if viewportFBO s = fbo \<and> viewportWidth s = 0 \<and> viewportHeight s = 0 then []
      else [glViewport 0 0 0 0])"
    unfolding s2_def by (subst SetViewport_absent [OF absent1]) (simp add: calls_between_def v1)
  have g3: "\<forall>c\<in>set (calls_between s2 s3). 2 \<le> stage c \<and> stage c \<le> 5"
    using SetDrawParameters_shape [of dp s2] by (simp_all add: s3_def)
  have g4: "\<forall>c\<in>set (calls_between s3 s4). stage c = 6"
    using SetShader_shape [of shader s3] by (simp add: s4_def)
  have g5: "\<forall>c\<in>set (calls_between s4 s5). stage c = 7"
    using SetVAO_shape [of vao s4] by (simp add: s5_def)
  have ga: "\<forall>c\<in>set after. 1 < stage c"
    using g3 g4 g5 by (fastforce simp: after_def)
  have iss: "issued (Draw fbo shader vao dp numInstances numElems s) =
          issued s @ calls_between s s1 @ calls_between s1 s2 @ after"
    by (simp add: Draw_shape [OF n] s1_def s2_def s3_def s4_def s5_def after_def)
  show "\<exists>before after.
              issued (Draw fbo shader vao dp numInstances numElems s) =
                issued s @ before @
                  (if viewportFBO s = fbo \<and> viewportWidth s = 0 \<and> viewportHeight s = 0
                   then [] else [glViewport 0 0 0 0]) @ after
              \<and> (\<forall>c\<in>set before. stage c = 0) \<and> (\<forall>c\<in>set after. 1 < stage c)"
    apply (rule exI [of _ "calls_between s s1"])
    apply (rule exI [of _ after])
    apply (insert ga)
    apply (simp add: iss x2 g1)
    done
qed

theorem SetViewport_unregistered_witness:
  "fboMap example_device 7 = None \<and> (1::GLuint) \<noteq> 0
   \<and> fboMap (SetViewport 7 example_device) 7 = Some \<lparr>width = 0, height = 0\<rparr>
   \<and> issued (SetViewport 7 example_device) = issued example_device @ [glViewport 0 0 0 0]
   \<and> fboMap (Draw 7 0 0 example_parameters 1 0 example_device) 7
        = Some \<lparr>width = 0, height = 0\<rparr>"
proof -
  have a: "fboMap example_device 7 = None"
    by (simp add: example_device_def OpenGLRenderDevice_def)
  have v: "viewportFBO example_device = 0"
    by (simp add: example_device_def OpenGLRenderDevice_def)
  show ?thesis
    using a v SetViewport_unregistered [OF a, where numInstances = 1 and shader = 0
        and vao = 0 and dp = example_parameters and numElems = 0]
    by simp
qed

lemma example_stale_fboMap: "fboMap example_stale_viewport = fboMap example_device"
proof -
  have n: "(1::GLuint) \<noteq> 0" by simp
  have a: "fboMap example_device 7 = None"
    by (simp add: example_device_def OpenGLRenderDevice_def)
  have "fboMap (Draw 7 0 0 example_parameters 1 0 example_device)
          = (fboMap example_device)(7 \<mapsto> \<lparr>width = 0, height = 0\<rparr>)"
    by (simp add: Draw_shape [OF n] subscript_def a FBOData0_def)
  then show ?thesis
    using a by (simp add: example_stale_viewport_def ReleaseRenderTarget_def fun_upd_idem)
qed

lemma example_stale_cache:
  "viewportFBO example_stale_viewport = 7 \<and> viewportWidth example_stale_viewport = 0
   \<and> viewportHeight example_stale_viewport = 0"
proof -
  have n: "(1::GLuint) \<noteq> 0" by simp
  have a: "fboMap example_device 7 = None"
    by (simp add: example_device_def OpenGLRenderDevice_def)
  have m: "fboMap (Draw 7 0 0 example_parameters 1 0 example_device) 7
          = Some \<lparr>width = 0, height = 0\<rparr>"
    by (simp add: Draw_shape [OF n] subscript_def a FBOData0_def)
  show ?thesis
    by (simp add: example_stale_viewport_def ReleaseRenderTarget_def m emit_def)
       (simp add: Draw_shape [OF n] subscript_def a FBOData0_def)
qed

text \<open>
  Claim C10 as stated fails on \<open>example_stale_viewport\<close>: handle 7 has no record and
  the cached viewport is already that of handle 7 with width 0 and height 0, so
  \<^verbatim>\<open>SetViewport(7)\<close> applies no viewport; and \<^verbatim>\<open>Draw\<close> to handle 7 with an
  instance count of 0 inserts no record.
\<close>

theorem SetViewport_unregistered_counterexample:
  "fboMap example_stale_viewport 7 = None
   \<and> issued (SetViewport 7 example_stale_viewport) = issued example_stale_viewport
   \<and> fboMap (Draw 7 0 0 example_parameters 0 0 example_stale_viewport) 7 = None"
proof -
  have a: "fboMap example_stale_viewport 7 = None"
    by (simp add: example_stale_fboMap example_device_def OpenGLRenderDevice_def)
  show ?thesis
    using a example_stale_cache by (simp add: SetViewport_absent [OF a] Draw_def)
qed


section \<open>Properties of the resource registry\<close>

lemma FBOData_overwrite:
  "(a::FBOData)\<lparr>width := w, height := h\<rparr> = \<lparr>width = w, height = h\<rparr>"
  by (cases a) simp

lemma UpdateRenderTarget_eq:
  "UpdateRenderTarget fbo w h s = s\<lparr>fboMap := (fboMap s)(0 \<mapsto> \<lparr>width = w, height = h\<rparr>)\<rparr>"
  by (cases "fboMap s 0")
     (simp_all add: UpdateRenderTarget_def subscript_def FBOData0_def FBOData_overwrite)

text \<open>
  Claim C4. Whatever handle it is given, \<^verbatim>\<open>UpdateRenderTarget\<close> stores the width and
  the height in the record of handle 0 and changes nothing else: the record of every
  other handle, the given one included when it is not 0, stays as it was, and so do the
  cache and the calls issued.
\<close>

theorem UpdateRenderTarget_default_only:
  "UpdateRenderTarget fbo w h s = s\<lparr>fboMap := (fboMap s)(0 \<mapsto> \<lparr>width = w, height = h\<rparr>)\<rparr>
   \<and> fboMap (UpdateRenderTarget fbo w h s) 0 = Some \<lparr>width = w, height = h\<rparr>
   \<and> (\<forall>k. k \<noteq> 0 \<longrightarrow> fboMap (UpdateRenderTarget fbo w h s) k = fboMap s k)"
  by (simp add: UpdateRenderTarget_eq)

theorem UpdateRenderTarget_default_only_witness:
  "(7::GLuint) \<noteq> 0
   \<and> fboMap (snd (CreateRenderTarget example_driver 4 256 256 0x8CE0 0 0 example_device)) 7
        = Some \<lparr>width = 256, height = 256\<rparr>
   \<and> fboMap (UpdateRenderTarget 7 800 600
                (snd (CreateRenderTarget example_driver 4 256 256 0x8CE0 0 0 example_device))) 0
        = Some \<lparr>width = 800, height = 600\<rparr>
   \<and> fboMap (UpdateRenderTarget 7 800 600
                (snd (CreateRenderTarget example_driver 4 256 256 0x8CE0 0 0 example_device))) 7
        = Some \<lparr>width = 256, height = 256\<rparr>"
proof -
  have c: "fboMap (snd (CreateRenderTarget example_driver 4 256 256 0x8CE0 0 0 example_device)) 7
             = Some \<lparr>width = 256, height = 256\<rparr>"
    by (simp add: CreateRenderTarget_def example_driver_def Let_def)
  show ?thesis
    using c UpdateRenderTarget_default_only [of 7 800 600
        "snd (CreateRenderTarget example_driver 4 256 256 0x8CE0 0 0 example_device)"]
    by simp
qed

text \<open>
  Claim C2, as amended. With handle 0, every \<^verbatim>\<open>Release\<close> operation and
  \<^verbatim>\<open>UpdateVertexArrayBuffer\<close> return the device as it was: no call is issued and no
  record or cached value changes. \<^verbatim>\<open>UpdateRenderTarget\<close> with handle 0 issues no call
  either, but it stores the width and the height in the record of handle 0.
\<close>

theorem zero_handle_noop:
  "ReleaseRenderTarget 0 s = (0, s) \<and> ReleaseVertexArray 0 s = (0, s)
   \<and> ReleaseSampler 0 s = (0, s) \<and> ReleaseTexture2D 0 s = (0, s)
   \<and> ReleaseUniformBuffer 0 s = (0, s) \<and> ReleaseShaderProgram 0 s = (0, s)
   \<and> UpdateVertexArrayBuffer 0 bufferIndex data dataSize s = Some s
   \<and> UpdateRenderTarget 0 w h s = s\<lparr>fboMap := (fboMap s)(0 \<mapsto> \<lparr>width = w, height = h\<rparr>)\<rparr>"
  by (simp add: ReleaseRenderTarget_def ReleaseVertexArray_def ReleaseSampler_def
      ReleaseTexture2D_def ReleaseUniformBuffer_def ReleaseShaderProgram_def
      UpdateVertexArrayBuffer_def UpdateRenderTarget_eq)

text \<open>
  Claim C2 as stated fails for \<^verbatim>\<open>UpdateRenderTarget\<close>: with handle 0 it changes the
  record of the default target.
\<close>

theorem zero_handle_noop_counterexample:
  "fboMap (UpdateRenderTarget 0 800 600 example_device) 0 \<noteq> fboMap example_device 0"
  by (simp add: UpdateRenderTarget_eq example_device_def OpenGLRenderDevice_def)

text \<open>
  \<^verbatim>\<open>UpdateUniformBuffer\<close> has no guard on its handle: with handle 0 it binds, maps,
  copies and unmaps as it does with every other handle.
\<close>

lemma UpdateUniformBuffer_zero:
  "UpdateUniformBuffer 0 data dataSize s =
     s\<lparr>issued := issued s @
        [glBindBuffer GL_UNIFORM_BUFFER 0, glMapBuffer GL_UNIFORM_BUFFER, memcpy data dataSize,
         glUnmapBuffer GL_UNIFORM_BUFFER]\<rparr>"
  by (simp add: UpdateUniformBuffer_def emit_def)

text \<open>
  Claim C6. For a registered vertex array (a handle other than 0 with a record) and a
  buffer index inside the record's arrays, \<^verbatim>\<open>UpdateVertexArrayBuffer\<close> returns, and
  the recorded capacity of that buffer afterwards is the old one when the byte size is
  at most the old capacity (the buffer is overwritten in place with
  \<^verbatim>\<open>glBufferSubData\<close>) and exactly the byte size otherwise (the buffer is reallocated
  with \<^verbatim>\<open>glBufferData\<close>); it never decreases, and the capacity of no other buffer
  changes.
\<close>

theorem UpdateVertexArrayBuffer_capacity:
  assumes "vao \<noteq> 0" and "vaoMap s vao = Some r"
    and "unat bufferIndex < length (buffers r)"
    and "unat bufferIndex < length (bufferSizes r)"
  shows "\<exists>s' r'. UpdateVertexArrayBuffer vao bufferIndex data dataSize s = Some s'
           \<and> vaoMap s' vao = Some r'
           \<and> bufferSizes r' ! unat bufferIndex =
               (if dataSize \<le> bufferSizes r ! unat bufferIndex
                then bufferSizes r ! unat bufferIndex else dataSize)
           \<and> bufferSizes r ! unat bufferIndex \<le> bufferSizes r' ! unat bufferIndex
           \<and> bufferSizes r' = (bufferSizes r)[unat bufferIndex := bufferSizes r' ! unat bufferIndex]
           \<and> calls_between (SetVAO vao s) s' =
               [glBindBuffer GL_ARRAY_BUFFER (buffers r ! unat bufferIndex),
                if dataSize \<le> bufferSizes r ! unat bufferIndex
                then glBufferSubData GL_ARRAY_BUFFER dataSize data
                else glBufferData GL_ARRAY_BUFFER dataSize data
                       (if instanceComponentsStartIndex r \<le> bufferIndex then USAGE_DYNAMIC_DRAW
                        else usage r)]"
proof -
  have v: "vaoMap (SetVAO vao s) = vaoMap s"
    by (simp add: SetVAO_def emit_def)
  show ?thesis
  proof (cases "dataSize \<le> bufferSizes r ! unat bufferIndex")
    case True
    then show ?thesis
      using assms by (simp add: UpdateVertexArrayBuffer_def Let_def emit_def v calls_between_def)
  next
    case False
    then show ?thesis
      using assms by (simp add: UpdateVertexArrayBuffer_def Let_def emit_def v calls_between_def)
  qed
qed

lemma example_vertex_array_sizes:
  "map_option bufferSizes (vaoMap example_vertex_array_device 3) = Some [48, 80, 64, 24]"
  by code_simp

lemma example_vertex_array_buffers:
  "map_option buffers (vaoMap example_vertex_array_device 3) = Some [7, 8, 9, 10]"
  by code_simp

theorem UpdateVertexArrayBuffer_capacity_witness:
  "(3::GLuint) \<noteq> 0
   \<and> map_option bufferSizes (vaoMap example_vertex_array_device 3) = Some [48, 80, 64, 24]
   \<and> (\<exists>s' r'. UpdateVertexArrayBuffer 3 2 0 128 example_vertex_array_device = Some s'
          \<and> vaoMap s' 3 = Some r' \<and> bufferSizes r' = [48, 80, 128, 24])
   \<and> (\<exists>s' r'. UpdateVertexArrayBuffer 3 2 0 32 example_vertex_array_device = Some s'
          \<and> vaoMap s' 3 = Some r' \<and> bufferSizes r' = [48, 80, 64, 24])"
proof -
  obtain r where r: "vaoMap example_vertex_array_device 3 = Some r"
    and sz: "bufferSizes r = [48, 80, 64, 24]" and bs: "buffers r = [7, 8, 9, 10]"
    using example_vertex_array_sizes example_vertex_array_buffers by auto
  have n: "(3::GLuint) \<noteq> 0" by simp
  have i1: "unat (2::GLuint) < length (buffers r)" by (simp add: bs)
  have i2: "unat (2::GLuint) < length (bufferSizes r)" by (simp add: sz)
  show ?thesis
    using UpdateVertexArrayBuffer_capacity [OF n r i1 i2, of 0 128]
      UpdateVertexArrayBuffer_capacity [OF n r i1 i2, of 0 32]
    by (auto simp: sz example_vertex_array_sizes)
qed


section \<open>Properties of version detection\<close>

lemma to_string_nonempty: "to_string n \<noteq> []"
  by (subst to_string.simps) simp

text \<open>
  Claim C9. With no shader version memoized yet, \<^verbatim>\<open>GetShaderVersion\<close> maps the
  version \<open>v\<close> that \<^verbatim>\<open>GetVersion\<close> returns (the memoized one, or the one just
  queried) through the descending thresholds: the decimal string of \<open>v\<close> from 330 on,
  \<^verbatim>\<open>150\<close> from 320, \<^verbatim>\<open>140\<close> from 310, \<^verbatim>\<open>130\<close> from 300, \<^verbatim>\<open>120\<close> from 210,
  \<^verbatim>\<open>110\<close> from 200, and below 200 the empty string, with an error logged and nothing
  memoized. A non-empty result is memoized: the next call returns it without a query,
  whatever the driver would answer.
\<close>

theorem GetShaderVersion_table:
  assumes "shaderVersion s = []" and "fst (GetVersion drv s) = v"
  shows "(330 \<le> v \<longrightarrow> fst (GetShaderVersion drv s) = to_string (unat v))
       \<and> (320 \<le> v \<and> v < 330 \<longrightarrow> fst (GetShaderVersion drv s) = ''150'')
       \<and> (310 \<le> v \<and> v < 320 \<longrightarrow> fst (GetShaderVersion drv s) = ''140'')
       \<and> (300 \<le> v \<and> v < 310 \<longrightarrow> fst (GetShaderVersion drv s) = ''130'')
       \<and> (210 \<le> v \<and> v < 300 \<longrightarrow> fst (GetShaderVersion drv s) = ''120'')
       \<and> (200 \<le> v \<and> v < 210 \<longrightarrow> fst (GetShaderVersion drv s) = ''110'')
       \<and> (v < 200 \<longrightarrow> fst (GetShaderVersion drv s) = []
             \<and> snd (GetShaderVersion drv s) =
                 emit (cerr ''Error: OpenGL Version does not support shaders.'')
                   (snd (GetVersion drv s)))
       \<and> (200 \<le> v \<longrightarrow> fst (GetShaderVersion drv s) \<noteq> []
             \<and> snd (GetShaderVersion drv s) =
                 (snd (GetVersion drv s))\<lparr>shaderVersion := fst (GetShaderVersion drv s)\<rparr>
             \<and> GetShaderVersion drv' (snd (GetShaderVersion drv s)) =
                 (fst (GetShaderVersion drv s), snd (GetShaderVersion drv s)))"
proof -
  obtain s1 where g: "GetVersion drv s = (v, s1)"
    using assms(2) by (cases "GetVersion drv s") simp
  have unfold: "GetShaderVersion drv s =
     (if v \<ge> 330 then (to_string (unat v), s1\<lparr>shaderVersion := to_string (unat v)\<rparr>)
      else if v \<ge> 320 then (''150'', s1\<lparr>shaderVersion := ''150''\<rparr>)
      else if v \<ge> 310 then (''140'', s1\<lparr>shaderVersion := ''140''\<rparr>)
      else if v \<ge> 300 then (''130'', s1\<lparr>shaderVersion := ''130''\<rparr>)
      else if v \<ge> 210 then (''120'', s1\<lparr>shaderVersion := ''120''\<rparr>)
      else if v \<ge> 200 then (''110'', s1\<lparr>shaderVersion := ''110''\<rparr>)
      else ([], emit (cerr ''Error: OpenGL Version does not support shaders.'') s1))"
    using assms(1) by (simp add: GetShaderVersion_def g Let_def)
  have memo: "\<And>x t. x \<noteq> [] \<Longrightarrow> GetShaderVersion drv' (t\<lparr>shaderVersion := x\<rparr>)
                 = (x, t\<lparr>shaderVersion := x\<rparr>)"
    by (simp add: GetShaderVersion_def)
  define n where "n = unat v"
  have cmp: "330 \<le> v \<longleftrightarrow> 330 \<le> n" "320 \<le> v \<longleftrightarrow> 320 \<le> n" "310 \<le> v \<longleftrightarrow> 310 \<le> n"
    "300 \<le> v \<longleftrightarrow> 300 \<le> n" "210 \<le> v \<longleftrightarrow> 210 \<le> n" "200 \<le> v \<longleftrightarrow> 200 \<le> n"
    "v < 330 \<longleftrightarrow> n < 330" "v < 320 \<longleftrightarrow> n < 320" "v < 310 \<longleftrightarrow> n < 310"
    "v < 300 \<longleftrightarrow> n < 300" "v < 210 \<longleftrightarrow> n < 210" "v < 200 \<longleftrightarrow> n < 200"
    by (simp_all add: n_def word_le_nat_alt word_less_nat_alt)
  consider "330 \<le> n" | "320 \<le> n" "n < 330" | "310 \<le> n" "n < 320" | "300 \<le> n" "n < 310"
    | "210 \<le> n" "n < 300" | "200 \<le> n" "n < 210" | "n < 200"
    by linarith
  then show ?thesis
  proof cases
    case 1
    then show ?thesis
      unfolding cmp by (simp add: unfold cmp g memo to_string_nonempty)
  next
    case 2
    then show ?thesis
      unfolding cmp by (simp add: unfold cmp g memo)
  next
    case 3
    then show ?thesis
      unfolding cmp by (simp add: unfold cmp g memo)
  next
    case 4
    then show ?thesis
      unfolding cmp by (simp add: unfold cmp g memo)
  next
    case 5
    then show ?thesis
      unfolding cmp by (simp add: unfold cmp g memo)
  next
    case 6
    then show ?thesis
      unfolding cmp by (simp add: unfold cmp g memo)
  next
    case 7
    then show ?thesis
      unfolding cmp by (simp add: unfold cmp g)
  qed
qed


lemma to_string_330: "to_string 330 = ''330''"
  by code_simp

theorem GetShaderVersion_table_witness:
  "shaderVersion example_device = []
   \<and> fst (GetVersion example_driver example_device) = 330
   \<and> fst (GetShaderVersion example_driver example_device) = ''330''
   \<and> fst (GetShaderVersion example_driver
              (snd (GetShaderVersion example_driver example_device))) = ''330''
   \<and> fst (GetVersion (example_driver\<lparr>drvMinorVersion := 2\<rparr>) example_device) = 320
   \<and> fst (GetShaderVersion (example_driver\<lparr>drvMinorVersion := 2\<rparr>) example_device) = ''150''
   \<and> fst (GetVersion (example_driver\<lparr>drvMajorVersion := 1, drvMinorVersion := 9\<rparr>)
            example_device) = 190
   \<and> fst (GetShaderVersion (example_driver\<lparr>drvMajorVersion := 1, drvMinorVersion := 9\<rparr>)
            example_device) = []"
proof -
  have a: "shaderVersion example_device = []"
    by (simp add: example_device_def OpenGLRenderDevice_def)
  have v0: "version example_device = 0"
    by (simp add: example_device_def OpenGLRenderDevice_def)
  have b1: "fst (GetVersion example_driver example_device) = 330"
    by (simp add: GetVersion_def v0 example_driver_def Let_def)
  have b2: "fst (GetVersion (example_driver\<lparr>drvMinorVersion := 2\<rparr>) example_device) = 320"
    by (simp add: GetVersion_def v0 example_driver_def Let_def)
  have b3: "fst (GetVersion (example_driver\<lparr>drvMajorVersion := 1, drvMinorVersion := 9\<rparr>)
                  example_device) = 190"
    by (simp add: GetVersion_def v0 example_driver_def Let_def)
  have p: "(330::GLuint) \<le> 330" "(200::GLuint) \<le> 330" "(320::GLuint) \<le> 320 \<and> (320::GLuint) < 330"
    "(190::GLuint) < 200"
    by simp_all
  have r1: "fst (GetShaderVersion example_driver example_device) = to_string (unat (330::GLuint))"
    using GetShaderVersion_table [OF a b1, of example_driver] p(1) by blast
  have m1: "GetShaderVersion example_driver (snd (GetShaderVersion example_driver example_device))
              = (fst (GetShaderVersion example_driver example_device),
                 snd (GetShaderVersion example_driver example_device))"
    using GetShaderVersion_table [OF a b1, of example_driver] p(2) by blast
  have r2: "fst (GetShaderVersion (example_driver\<lparr>drvMinorVersion := 2\<rparr>) example_device)
              = ''150''"
    using GetShaderVersion_table [OF a b2, of example_driver] p(3) by blast
  have r3: "fst (GetShaderVersion (example_driver\<lparr>drvMajorVersion := 1, drvMinorVersion := 9\<rparr>)
                   example_device) = []"
    using GetShaderVersion_table [OF a b3, of example_driver] p(4) by blast
  show ?thesis
    using a b1 b2 b3 r1 m1 r2 r3 by (simp add: to_string_330)
qed



section \<open>Properties of the shader program pipeline\<close>

lemma find_at_Some:
  "find_at t needle p = Some i \<Longrightarrow> p \<le> i \<and> occurs_at needle t i"
proof (induction t needle p rule: find_at.induct)
  case (1 t needle pos)
  show ?case
  proof (cases "length t < pos + length needle")
    case True
    with "1.prems" show ?thesis
      by (subst (asm) find_at.simps) simp
  next
    case False
    show ?thesis
    proof (cases "take (length needle) (drop pos t) = needle")
      case True
      with False "1.prems" have "i = pos"
        by (subst (asm) find_at.simps) simp
      with True False show ?thesis
        by (simp add: occurs_at_def)
    next
      case neq: False
      with False "1.prems" have "find_at t needle (Suc pos) = Some i"
        by (subst (asm) find_at.simps) simp
      from "1.IH" [OF False neq this] show ?thesis
        by simp
    qed
  qed
qed

lemma occurs_at_nth:
  assumes "occurs_at needle text i" and "k < length needle"
  shows "text ! (i + k) = needle ! k"
proof -
  from assms(1) have eq: "take (length needle) (drop i text) = needle"
    and len: "i + length needle \<le> length text"
    by (simp_all add: occurs_at_def)
  have "needle ! k = take (length needle) (drop i text) ! k"
    by (simp only: eq)
  also have "\<dots> = drop i text ! k"
    using assms(2) by (rule nth_take)
  also have "\<dots> = text ! (i + k)"
    using len by simp
  finally show ?thesis
    by simp
qed

lemma newline_not_in_version: "newline \<notin> set ''#version''"
  by (simp add: newline_def)

lemma found_directive:
  assumes "string_find text [newline] (string_find text ''#version'' (Some 0)) = Some pos"
  shows "has_version_directive text"
proof -
  from assms obtain i where v: "find_at text ''#version'' 0 = Some i"
    and n: "find_at text [newline] i = Some pos"
    by (cases "find_at text ''#version'' 0") auto
  from find_at_Some [OF v] have occ: "occurs_at ''#version'' text i"
    by simp
  from find_at_Some [OF n] have le: "i \<le> pos" and nl: "occurs_at [newline] text pos"
    by simp_all
  from nl have len: "pos < length text"
    by (simp add: occurs_at_def)
  from occurs_at_nth [OF nl, of 0] have at: "text ! pos = newline"
    by simp
  have far: "i + length ''#version'' \<le> pos"
  proof (rule ccontr)
    assume "\<not> i + length ''#version'' \<le> pos"
    with le obtain k where k: "pos = i + k" "k < length ''#version''"
      by (metis le_Suc_ex nat_add_left_cancel_less not_le)
    from occurs_at_nth [OF occ k(2)] at k(1) have "''#version'' ! k = newline"
      by simp
    with k(2) newline_not_in_version show False
      by (metis nth_mem)
  qed
  have inner: "list_ex (\<lambda>j. text ! j = newline) [i + length ''#version'' ..< length text]"
    unfolding list_ex_iff using far len at by (intro bexI [of _ pos]) simp_all
  have "i < length text"
    using occ by (simp add: occurs_at_def)
  then have "i \<in> set [0 ..< length text]"
    by simp
  with occ inner show ?thesis
    unfolding has_version_directive_def list_ex_iff by (intro bexI [of _ i]) simp_all
qed

text \<open>
  Claim C5. For a source text with no version directive, \<^verbatim>\<open>CreateShaderProgram\<close>
  returns the sentinel handle, the largest 32-bit value; it registers no program record
  and changes nothing in the device; the only calls are \<^verbatim>\<open>glCreateProgram\<close> and the
  error message, so no shader is created or compiled.
\<close>

theorem CreateShaderProgram_missing_version:
  "\<not> has_version_directive shaderText \<Longrightarrow>
     fst (CreateShaderProgram drv shaderText s) = - 1
     \<and> (\<forall>h :: GLuint. h \<le> fst (CreateShaderProgram drv shaderText s))
     \<and> shaderProgramMap (snd (CreateShaderProgram drv shaderText s)) = shaderProgramMap s
     \<and> snd (CreateShaderProgram drv shaderText s) =
           s\<lparr>issued := issued s @
              [glCreateProgram,
               cerr (if drvCreateProgram drv = 0 then ''Error creating shader program.''
                     else ''Error: Shader program is missing #version directive.'')]\<rparr>"
proof -
  assume nd: "\<not> has_version_directive shaderText"
  have none: "string_find shaderText [newline] (string_find shaderText ''#version'' (Some 0)) = None"
  proof (cases "string_find shaderText [newline] (string_find shaderText ''#version'' (Some 0))")
    case None
    then show ?thesis .
  next
    case (Some pos)
    from found_directive [OF this] nd show ?thesis
      by simp
  qed
  show ?thesis
  proof (cases "drvCreateProgram drv = 0")
    case True
    then show ?thesis
      by (simp add: CreateShaderProgram_def emit_def Let_def)
  next
    case False
    then show ?thesis
      using none by (simp add: CreateShaderProgram_def emit_def Let_def)
  qed
qed


lemma example_without_version: "\<not> has_version_directive example_source_without_version"
  by code_simp

theorem CreateShaderProgram_missing_version_witness:
  "\<not> has_version_directive example_source_without_version
   \<and> fst (CreateShaderProgram example_driver example_source_without_version example_device)
       = 0xFFFFFFFF
   \<and> shaderProgramMap
        (snd (CreateShaderProgram example_driver example_source_without_version example_device))
       = shaderProgramMap example_device
   \<and> calls_between example_device
        (snd (CreateShaderProgram example_driver example_source_without_version example_device))
       = [glCreateProgram, cerr ''Error: Shader program is missing #version directive.'']"
  using example_without_version
    CreateShaderProgram_missing_version [OF example_without_version, of example_driver
      example_device]
  by (simp add: calls_between_def example_driver_def)

lemma AddShaderUniforms_samplerMap:
  "fst (snd (AddShaderUniforms drv shaderProgram um sm s)) = sm"
  by (simp add: AddShaderUniforms_def Let_def uniform_loop.simps [of _ _ 0 0] split: prod.splits)

lemma CreateShaderProgram_registered:
  assumes "CreateShaderProgram drv shaderText s = (h, s')" and "h \<noteq> - 1"
  shows "\<exists>p. shaderProgramMap s' h = Some p \<and> samplerMap p = Map.empty"
proof -
  have sm: "\<And>p um0 sm0 t um1 sm1 t1.
      AddShaderUniforms drv p um0 sm0 t = (um1, sm1, t1) \<Longrightarrow> sm1 = sm0"
    using AddShaderUniforms_samplerMap by (metis fst_conv snd_conv)
  show ?thesis
    using assms
    by (auto simp: CreateShaderProgram_def Let_def split: if_splits option.splits prod.splits
        dest: sm)
qed

lemma example_program_handle:
  "fst (CreateShaderProgram example_driver example_source example_device) = 9"
  by code_simp

text \<open>
  Claim C1 does not hold of the implementation. The linked program of the example
  driver has one active uniform, the sampler-2D uniform \<^verbatim>\<open>diffuse\<close>;
  \<^verbatim>\<open>CreateShaderProgram\<close> succeeds with handle 9 and the sampler table of the record
  it registers is empty.
\<close>

theorem CreateShaderProgram_sampler_table_empty:
  "drvActiveUniforms example_driver = [(GL_SAMPLER_2D, ''diffuse'', 0)]
   \<and> fst (CreateShaderProgram example_driver example_source example_device) = 9
   \<and> (\<exists>p. shaderProgramMap
              (snd (CreateShaderProgram example_driver example_source example_device)) 9 = Some p
          \<and> samplerMap p = Map.empty)"
proof -
  obtain s' where c: "CreateShaderProgram example_driver example_source example_device = (9, s')"
    using example_program_handle
    by (cases "CreateShaderProgram example_driver example_source example_device") simp
  have "(9::GLuint) \<noteq> - 1"
    by simp
  from CreateShaderProgram_registered [OF c this]
  have r: "\<exists>p. shaderProgramMap s' 9 = Some p \<and> samplerMap p = Map.empty" .
  have u: "drvActiveUniforms example_driver = [(GL_SAMPLER_2D, ''diffuse'', 0)]"
    by (simp add: example_driver_def)
  from r u show ?thesis
    by (simp add: c)
qed


section \<open>Properties of vertex array creation\<close>

lemma pointer_slots_append [simp]:
  "pointer_slots (xs @ ys) = pointer_slots xs @ pointer_slots ys"
  by (simp add: pointer_slots_def)

lemma divisor_slots_append [simp]:
  "divisor_slots (xs @ ys) = divisor_slots xs @ divisor_slots ys"
  by (simp add: divisor_slots_def)

lemma pointer_slots_Nil [simp]: "pointer_slots [] = []"
  by (simp add: pointer_slots_def)

lemma divisor_slots_Nil [simp]: "divisor_slots [] = []"
  by (simp add: divisor_slots_def)

lemma consecutive_slots_Suc:
  "consecutive_slots a (Suc n) = a # consecutive_slots (a + 1) n"
proof -
  have "[0..<Suc n] = 0 # map Suc [0..<n]"
    by (simp add: upt_conv_Cons map_Suc_upt del: upt_Suc)
  then show ?thesis
    by (simp add: consecutive_slots_def comp_def add.assoc del: upt_Suc)
qed

lemma consecutive_slots_add:
  "consecutive_slots a (m + n) = consecutive_slots a m @ consecutive_slots (a + of_nat m) n"
proof (induction m arbitrary: a)
  case 0
  then show ?case by (simp add: consecutive_slots_def)
next
  case (Suc m)
  have "consecutive_slots a (Suc m + n) = a # consecutive_slots (a + 1) (m + n)"
    using consecutive_slots_Suc [of a "m + n"] by simp
  also have "\<dots> = a # consecutive_slots (a + 1) m @ consecutive_slots (a + 1 + of_nat m) n"
    by (simp add: Suc.IH)
  also have "\<dots> = consecutive_slots a (Suc m) @ consecutive_slots (a + of_nat (Suc m)) n"
    by (simp add: consecutive_slots_Suc ac_simps)
  finally show ?case .
qed

lemma calls_between_self [simp]: "calls_between s s = []"
  by (simp add: calls_between_def)

lemma word_succ: "(j::GLuint) < d \<Longrightarrow> unat (j + 1) = Suc (unat j)"
  by (metis (no_types, lifting) Suc_eq_plus1 add.commute add_0 inc_i inc_le
      unat_plus_simple unsigned_0 unsigned_1 word_gt_0)

lemma attribute_loop_calls:
  "unat d - unat j = n \<Longrightarrow>
     snd (attribute_loop j d e m a s)
       = s\<lparr>issued := issued s @ calls_between s (snd (attribute_loop j d e m a s))\<rparr>
     \<and> pointer_slots (calls_between s (snd (attribute_loop j d e m a s)))
         = map (\<lambda>x. (x, 4)) (consecutive_slots a n)
     \<and> divisor_slots (calls_between s (snd (attribute_loop j d e m a s)))
         = (if m then map (\<lambda>x. (x, 1)) (consecutive_slots a n) else [])
     \<and> fst (attribute_loop j d e m a s) = a + of_nat n"
proof (induction n arbitrary: j a s)
  case 0
  then have "\<not> j < d"
    by (simp add: word_less_nat_alt)
  then have "attribute_loop j d e m a s = (a, s)"
    by (subst attribute_loop.simps) simp
  then show ?case
    by (simp add: consecutive_slots_def)
next
  case (Suc n)
  then have lt: "j < d"
    by (simp add: word_less_nat_alt)
  define X where "X = [glEnableVertexAttribArray a,
      glVertexAttribPointer a 4 (ucast e * 4) (4 * ucast j * 4)]
      @ (if m then [glVertexAttribDivisor a 1] else [])"
  define s3 where "s3 = s\<lparr>issued := issued s @ X\<rparr>"
  define r where "r = attribute_loop (j + 1) d e m (a + 1) s3"
  have step: "attribute_loop j d e m a s = r"
    using lt by (subst attribute_loop.simps) (simp add: r_def s3_def X_def emit_def Let_def)
  have "unat d - unat (j + 1) = n"
    using Suc.prems word_succ [OF lt] by simp
  then have ih: "snd r = s3\<lparr>issued := issued s3 @ calls_between s3 (snd r)\<rparr>
      \<and> pointer_slots (calls_between s3 (snd r)) = map (\<lambda>x. (x, 4)) (consecutive_slots (a + 1) n)
      \<and> divisor_slots (calls_between s3 (snd r))
          = (if m then map (\<lambda>x. (x, 1)) (consecutive_slots (a + 1) n) else [])
      \<and> fst r = a + 1 + of_nat n"
    unfolding r_def by (rule Suc.IH)
  from ih have fr: "snd r = s3\<lparr>issued := issued s3 @ calls_between s3 (snd r)\<rparr>"
    by (rule conjunct1)
  from ih have ps: "pointer_slots (calls_between s3 (snd r))
                      = map (\<lambda>x. (x, 4)) (consecutive_slots (a + 1) n)"
    by blast
  from ih have ds: "divisor_slots (calls_between s3 (snd r))
               = (if m then map (\<lambda>x. (x, 1)) (consecutive_slots (a + 1) n) else [])"
    by blast
  from ih have at: "fst r = a + 1 + of_nat n"
    by blast
  have iss: "issued (snd r) = issued s @ X @ calls_between s3 (snd r)"
    by (subst fr) (simp add: s3_def)
  have cb: "calls_between s (snd r) = X @ calls_between s3 (snd r)"
    by (simp add: calls_between_def [of s "snd r"] iss)
  have frame: "snd r = s\<lparr>issued := issued s @ calls_between s (snd r)\<rparr>"
    by (subst fr) (simp add: s3_def cb)
  have pX: "pointer_slots X = [(a, 4)]" and dX: "divisor_slots X = (if m then [(a, 1)] else [])"
    by (simp_all add: X_def pointer_slots_def divisor_slots_def)
  show ?case
    unfolding step
  proof (intro conjI)
    show "snd r = s\<lparr>issued := issued s @ calls_between s (snd r)\<rparr>"
      by (rule frame)
    show "pointer_slots (calls_between s (snd r)) = map (\<lambda>x. (x, 4)) (consecutive_slots a (Suc n))"
      by (simp add: cb pX ps consecutive_slots_Suc)
    show "divisor_slots (calls_between s (snd r))
            = (if m then map (\<lambda>x. (x, 1)) (consecutive_slots a (Suc n)) else [])"
      by (simp add: cb dX ds consecutive_slots_Suc)
    show "fst r = a + of_nat (Suc n)"
      by (simp add: at add.assoc)
  qed
qed


lemma length_consecutive_slots [simp]: "length (consecutive_slots a n) = n"
  by (simp add: consecutive_slots_def)

lemma length_packed_slots: "length (packed_slots n) = (n + 3) div 4"
  by (simp add: packed_slots_def) presburger

lemma component_attributes_calls:
  "snd (component_attributes e m a s)
     = s\<lparr>issued := issued s @ calls_between s (snd (component_attributes e m a s))\<rparr>
   \<and> pointer_slots (calls_between s (snd (component_attributes e m a s)))
       = zip (consecutive_slots a (length (packed_slots (unat e))))
           (map of_nat (packed_slots (unat e)))
   \<and> divisor_slots (calls_between s (snd (component_attributes e m a s)))
       = (if m then map (\<lambda>x. (x, 1)) (consecutive_slots a (length (packed_slots (unat e))))
          else [])
   \<and> fst (component_attributes e m a s) = a + of_nat (length (packed_slots (unat e)))"
proof -
  define d where "d = unat e div 4"
  define r where "r = attribute_loop 0 (e div 4) e m a s"
  have dn: "unat (e div 4) - unat (0::GLuint) = d"
    by (simp add: d_def unat_div)
  have lp: "snd r = s\<lparr>issued := issued s @ calls_between s (snd r)\<rparr>
      \<and> pointer_slots (calls_between s (snd r)) = map (\<lambda>x. (x, 4)) (consecutive_slots a d)
      \<and> divisor_slots (calls_between s (snd r))
          = (if m then map (\<lambda>x. (x, 1)) (consecutive_slots a d) else [])
      \<and> fst r = a + of_nat d"
    unfolding r_def by (rule attribute_loop_calls [OF dn])
  from lp have fr: "snd r = s\<lparr>issued := issued s @ calls_between s (snd r)\<rparr>"
    by (rule conjunct1)
  from lp have ps: "pointer_slots (calls_between s (snd r)) = map (\<lambda>x. (x, 4)) (consecutive_slots a d)"
    by blast
  from lp have ds: "divisor_slots (calls_between s (snd r))
          = (if m then map (\<lambda>x. (x, 1)) (consecutive_slots a d) else [])"
    by blast
  from lp have at: "fst r = a + of_nat d"
    by blast
  have rem: "e mod 4 = 0 \<longleftrightarrow> unat e mod 4 = 0"
    by (simp add: unat_mod flip: unat_eq_zero)
  have rem_val: "of_nat (unat e mod 4) = e mod 4"
    by (simp add: word_arith_nat_mod [of e 4])
  show ?thesis
  proof (cases "unat e mod 4 = 0")
    case True
    then have c: "component_attributes e m a s = r"
      by (simp add: component_attributes_def r_def rem Let_def split: prod.splits)
    have p: "packed_slots (unat e) = replicate d 4"
      using True by (simp add: packed_slots_def d_def)
    show ?thesis
      unfolding c
    proof (intro conjI)
      show "snd r = s\<lparr>issued := issued s @ calls_between s (snd r)\<rparr>"
        by (rule fr)
      show "pointer_slots (calls_between s (snd r))
              = zip (consecutive_slots a (length (packed_slots (unat e))))
                  (map of_nat (packed_slots (unat e)))"
        by (simp add: ps p zip_replicate2)
      show "divisor_slots (calls_between s (snd r))
              = (if m then map (\<lambda>x. (x, 1)) (consecutive_slots a (length (packed_slots (unat e))))
                 else [])"
        by (simp add: ds p)
      show "fst r = a + of_nat (length (packed_slots (unat e)))"
        by (simp add: at p)
    qed
  next
    case False
    define Y where "Y = [glEnableVertexAttribArray (fst r),
        glVertexAttribPointer (fst r) (e mod 4) (ucast e * 4) (4 * ucast (e div 4) * 4)]
        @ (if m then [glVertexAttribDivisor (fst r) 1] else [])"
    define t where "t = (snd r)\<lparr>issued := issued (snd r) @ Y\<rparr>"
    have c: "component_attributes e m a s = (fst r + 1, t)"
      using False
      by (simp add: component_attributes_def r_def [symmetric] rem Let_def t_def Y_def emit_def
          split: prod.splits)
    have p: "packed_slots (unat e) = replicate d 4 @ [unat e mod 4]"
      using False by (simp add: packed_slots_def d_def)
    have iss: "issued t = issued s @ calls_between s (snd r) @ Y"
      unfolding t_def by (subst fr) simp
    have cb: "calls_between s t = calls_between s (snd r) @ Y"
      by (simp add: calls_between_def [of s t] iss)
    have pY: "pointer_slots Y = [(a + of_nat d, e mod 4)]"
      and dY: "divisor_slots Y = (if m then [(a + of_nat d, 1)] else [])"
      by (simp_all add: Y_def pointer_slots_def divisor_slots_def at)
    have cs: "consecutive_slots a (d + 1) = consecutive_slots a d @ [a + of_nat d]"
      by (simp add: consecutive_slots_add consecutive_slots_def)
    show ?thesis
      unfolding c
    proof (intro conjI)
      have upd: "\<And>Z. (snd r)\<lparr>issued := Z\<rparr> = s\<lparr>issued := Z\<rparr>"
        by (subst fr) simp
      have e1: "t = s\<lparr>issued := issued (snd r) @ Y\<rparr>"
        unfolding t_def by (rule upd)
      have iss0: "issued (snd r) = issued s @ calls_between s (snd r)"
        by (subst fr) simp
      have e2: "issued (snd r) @ Y = issued s @ calls_between s t"
        by (simp only: iss0 cb append_assoc)
      have "t = s\<lparr>issued := issued s @ calls_between s t\<rparr>"
        by (subst e1) (subst e2, rule refl)
      then show "snd (fst r + 1, t)
                   = s\<lparr>issued := issued s @ calls_between s (snd (fst r + 1, t))\<rparr>"
        by (simp only: snd_conv)
      show "pointer_slots (calls_between s (snd (fst r + 1, t)))
              = zip (consecutive_slots a (length (packed_slots (unat e))))
                  (map of_nat (packed_slots (unat e)))"
        using cs by (simp add: cb ps pY p zip_replicate2 rem_val)
      show "divisor_slots (calls_between s (snd (fst r + 1, t)))
              = (if m then map (\<lambda>x. (x, 1)) (consecutive_slots a (length (packed_slots (unat e))))
                 else [])"
        using cs by (simp add: cb ds dY p)
      show "fst (fst r + 1, t) = a + of_nat (length (packed_slots (unat e)))"
        by (simp add: at p add.assoc)
    qed
  qed
qed


lemma slot_count_Cons: "slot_count (x # xs) = length (packed_slots x) + slot_count xs"
  by (simp add: slot_count_def)

lemma component_loop_calls:
  "unat (nb - 1) - unat i = n \<Longrightarrow>
   component_loop vd sizes nvc nv u bufs nb i a bs s = Some (bs', s') \<Longrightarrow>
     issued s' = issued s @ calls_between s s'
     \<and> pointer_slots (calls_between s s')
         = zip (consecutive_slots a
                  (slot_count (map unat (drop (unat i) (take (unat (nb - 1)) sizes)))))
             (map of_nat
                (concat (map packed_slots
                   (map unat (drop (unat i) (take (unat (nb - 1)) sizes))))))
     \<and> divisor_slots (calls_between s s')
         = map (\<lambda>x. (x, 1))
             (consecutive_slots
                (a + of_nat (slot_count (take (unat nvc - unat i)
                    (map unat (drop (unat i) (take (unat (nb - 1)) sizes))))))
                (slot_count (drop (unat nvc - unat i)
                    (map unat (drop (unat i) (take (unat (nb - 1)) sizes))))))"
proof (induction n arbitrary: i a bs s)
  case 0
  then have nlt: "\<not> i < nb - 1"
    by (simp add: word_less_nat_alt)
  with "0.prems"(2) have "s' = s"
    by (subst (asm) component_loop.simps) simp
  moreover from "0.prems"(1) have "drop (unat i) (take (unat (nb - 1)) sizes) = []"
    by simp
  ultimately show ?case
    by (simp add: slot_count_def consecutive_slots_def)
next
  case (Suc n)
  then have lt: "i < nb - 1"
    by (simp add: word_less_nat_alt)
  then have iK: "unat i < unat (nb - 1)"
    by (simp add: word_less_nat_alt)
  define e where "e = sizes ! unat i"
  define m where "m = (nvc \<le> i)"
  define dsz :: size_t where
    "dsz = (if m then ucast e * 4 else ucast e * 4 * ucast nv)"
  define bd where "bd = (if m then nullptr
     else case vd of None \<Rightarrow> nullptr | Some ps \<Rightarrow> ps ! unat i)"
  define B where "B = [glBindBuffer GL_ARRAY_BUFFER (bufs ! unat i),
     glBufferData GL_ARRAY_BUFFER dsz bd (if m then USAGE_DYNAMIC_DRAW else u)]"
  define s2 where "s2 = s\<lparr>issued := issued s @ B\<rparr>"
  define r where "r = component_attributes e m a s2"
  from Suc.prems(2) have len: "unat i < length sizes"
    by (subst (asm) component_loop.simps) (simp add: lt Let_def split: if_splits)
  from Suc.prems(2)
  have rec: "component_loop vd sizes nvc nv u bufs nb (i + 1) (fst r) (bs[unat i := dsz]) (snd r)
               = Some (bs', s')"
    by (subst (asm) component_loop.simps)
       (auto simp: lt Let_def emit_def r_def s2_def B_def bd_def dsz_def m_def e_def
             split: if_splits option.splits)
  have n': "unat (nb - 1) - unat (i + 1) = n"
    using Suc.prems(1) word_succ [OF lt] by simp
  define rem' where "rem' = map unat (drop (unat (i + 1)) (take (unat (nb - 1)) sizes))"
  define k' where "k' = unat nvc - unat (i + 1)"
  define L where "L = length (packed_slots (unat e))"
  have ih: "issued s' = issued (snd r) @ calls_between (snd r) s'
     \<and> pointer_slots (calls_between (snd r) s')
         = zip (consecutive_slots (fst r) (slot_count rem'))
             (map of_nat (concat (map packed_slots rem')))
     \<and> divisor_slots (calls_between (snd r) s')
         = map (\<lambda>x. (x, 1))
             (consecutive_slots (fst r + of_nat (slot_count (take k' rem')))
                (slot_count (drop k' rem')))"
    unfolding rem'_def k'_def by (rule Suc.IH [OF n' rec])
  from ih have i1: "issued s' = issued (snd r) @ calls_between (snd r) s'"
    by (rule conjunct1)
  from ih have i2: "pointer_slots (calls_between (snd r) s')
         = zip (consecutive_slots (fst r) (slot_count rem'))
             (map of_nat (concat (map packed_slots rem')))"
    by blast
  from ih have i3: "divisor_slots (calls_between (snd r) s')
         = map (\<lambda>x. (x, 1))
             (consecutive_slots (fst r + of_nat (slot_count (take k' rem')))
                (slot_count (drop k' rem')))"
    by blast
  have cl: "snd r = s2\<lparr>issued := issued s2 @ calls_between s2 (snd r)\<rparr>
     \<and> pointer_slots (calls_between s2 (snd r))
         = zip (consecutive_slots a L) (map of_nat (packed_slots (unat e)))
     \<and> divisor_slots (calls_between s2 (snd r))
         = (if m then map (\<lambda>x. (x, 1)) (consecutive_slots a L) else [])
     \<and> fst r = a + of_nat L"
    unfolding r_def L_def by (rule component_attributes_calls)
  from cl have c1: "snd r = s2\<lparr>issued := issued s2 @ calls_between s2 (snd r)\<rparr>"
    by (rule conjunct1)
  from cl have c2: "pointer_slots (calls_between s2 (snd r))
         = zip (consecutive_slots a L) (map of_nat (packed_slots (unat e)))"
    by blast
  from cl have c3: "divisor_slots (calls_between s2 (snd r))
         = (if m then map (\<lambda>x. (x, 1)) (consecutive_slots a L) else [])"
    by blast
  from cl have c4: "fst r = a + of_nat L"
    by blast
  have ir: "issued (snd r) = issued s @ B @ calls_between s2 (snd r)"
    by (subst c1) (simp add: s2_def)
  have iss: "issued s' = issued s @ B @ calls_between s2 (snd r) @ calls_between (snd r) s'"
    by (simp only: i1 ir append_assoc)
  have cb: "calls_between s s' = B @ calls_between s2 (snd r) @ calls_between (snd r) s'"
    by (simp add: calls_between_def [of s s'] iss)
  have pB: "pointer_slots B = []" and dB: "divisor_slots B = []"
    by (simp_all add: B_def pointer_slots_def divisor_slots_def)
  have rem: "map unat (drop (unat i) (take (unat (nb - 1)) sizes)) = unat e # rem'"
    using len iK word_succ [OF lt]
    by (simp add: rem'_def e_def Cons_nth_drop_Suc [symmetric])
  show ?case
    unfolding rem
  proof (intro conjI)
    show "issued s' = issued s @ calls_between s s'"
      by (simp only: cb iss)
    show "pointer_slots (calls_between s s')
            = zip (consecutive_slots a (slot_count (unat e # rem')))
                (map of_nat (concat (map packed_slots (unat e # rem'))))"
      by (simp add: cb pB c2 i2 c4 slot_count_Cons consecutive_slots_add L_def)
    show "divisor_slots (calls_between s s')
            = map (\<lambda>x. (x, 1))
                (consecutive_slots
                   (a + of_nat (slot_count (take (unat nvc - unat i) (unat e # rem'))))
                   (slot_count (drop (unat nvc - unat i) (unat e # rem'))))"
    proof (cases m)
      case True
      then have "unat nvc - unat i = 0" "k' = 0"
        using word_succ [OF lt] by (simp_all add: m_def k'_def word_le_nat_alt)
      with True show ?thesis
        using i3
        by (simp add: cb dB c3 c4 slot_count_Cons consecutive_slots_add L_def slot_count_def)
    next
      case False
      then have "unat nvc - unat i = Suc k'"
        using word_succ [OF lt] by (simp add: m_def k'_def word_le_nat_alt)
      with False show ?thesis
        using i3 by (simp add: cb dB c3 c4 slot_count_Cons L_def add.assoc)
    qed
  qed
qed



lemma CreateVertexArray_loop:
  assumes cv: "CreateVertexArray drv vd sizes nvc nic nv indexData ni u s = Some (vao, s')"
  shows "\<exists>bsz s3. component_loop vd sizes nvc nv u (map (drvGenBuffers drv) [0..<unat (nvc + nic + 1)])
        (nvc + nic + 1) 0 0 (replicate (unat (nvc + nic + 1)) 0)
        (emit (glGenBuffers (nvc + nic + 1))
     (SetVAO (drvGenVertexArrays drv) (emit glGenVertexArrays s))) = Some (bsz, s3)
     \<and> issued s' = issued s3 @ [glBindBuffer GL_ELEMENT_ARRAY_BUFFER
         (map (drvGenBuffers drv) [0..<unat (nvc + nic + 1)] ! unat (nvc + nic + 1 - 1)),
     glBufferData GL_ELEMENT_ARRAY_BUFFER (ucast ni * 4) indexData u]"
proof (cases "component_loop vd sizes nvc nv u (map (drvGenBuffers drv) [0..<unat (nvc + nic + 1)])
        (nvc + nic + 1) 0 0 (replicate (unat (nvc + nic + 1)) 0)
        (emit (glGenBuffers (nvc + nic + 1))
     (SetVAO (drvGenVertexArrays drv) (emit glGenVertexArrays s)))")
  case None
  with cv show ?thesis
    by (simp add: CreateVertexArray_def Let_def)
next
  case (Some p)
  obtain bsz s3 where p: "p = (bsz, s3)"
    by (cases p)
  from cv Some show ?thesis
    unfolding p by (simp add: CreateVertexArray_def Let_def split: if_splits) (auto simp: emit_def)
qed

lemma component_loop_returns:
  "unat (nb - 1) - unat i = n \<Longrightarrow>
   unat (nb - 1) \<le> length sizes \<Longrightarrow> unat (nb - 1) \<le> length bufs \<Longrightarrow>
   unat (nb - 1) \<le> length bs \<Longrightarrow>
   (case vd of None \<Rightarrow> True | Some ps \<Rightarrow> min (unat nvc) (unat (nb - 1)) \<le> length ps) \<Longrightarrow>
     \<exists>bs' s'. component_loop vd sizes nvc nv u bufs nb i a bs s = Some (bs', s')
              \<and> length bs' = length bs"
proof (induction n arbitrary: i a bs s)
  case 0
  then have "\<not> i < nb - 1"
    by (simp add: word_less_nat_alt)
  then show ?case
    by (subst component_loop.simps) simp
next
  case (Suc n)
  then have lt: "i < nb - 1"
    by (simp add: word_less_nat_alt)
  then have iK: "unat i < unat (nb - 1)"
    by (simp add: word_less_nat_alt)
  have n': "unat (nb - 1) - unat (i + 1) = n"
    using Suc.prems(1) word_succ [OF lt] by simp
  have vd_ok: "\<not> nvc \<le> i \<Longrightarrow> vd = Some ps \<Longrightarrow> unat i < length ps" for ps
    using Suc.prems(5) iK by (simp add: word_le_nat_alt)
  define e where "e = sizes ! unat i"
  define m where "m = (nvc \<le> i)"
  define dsz :: size_t where "dsz = (if m then ucast e * 4 else ucast e * 4 * ucast nv)"
  define bd where "bd = (if m then nullptr
     else case vd of None \<Rightarrow> nullptr | Some ps \<Rightarrow> ps ! unat i)"
  define r where "r = component_attributes e m a
     (emit (glBufferData GL_ARRAY_BUFFER dsz bd (if m then USAGE_DYNAMIC_DRAW else u))
        (emit (glBindBuffer GL_ARRAY_BUFFER (bufs ! unat i)) s))"
  have step: "component_loop vd sizes nvc nv u bufs nb i a bs s
     = component_loop vd sizes nvc nv u bufs nb (i + 1) (fst r) (bs[unat i := dsz]) (snd r)"
    using lt iK Suc.prems(2,3,4) vd_ok
    by (subst component_loop.simps)
       (auto simp: Let_def r_def bd_def dsz_def m_def e_def split: option.splits)
  have "unat (nb - 1) \<le> length (bs[unat i := dsz])"
    using Suc.prems(4) by simp
  from Suc.IH [OF n' Suc.prems(2,3) this Suc.prems(5), of "fst r" "snd r"]
  show ?case
    unfolding step by simp
qed

text \<open>
  \<^verbatim>\<open>CreateVertexArray\<close> returns whenever the number of buffers does not wrap around,
  \<^verbatim>\<open>vertexElementSizes\<close> has an entry for every component and \<^verbatim>\<open>vertexData\<close>, when
  it is not \<^verbatim>\<open>nullptr\<close>, has an entry for every vertex component.
\<close>

lemma CreateVertexArray_returns:
  assumes "unat nvc + unat nic + 1 < 2 ^ 32"
    and "unat nvc + unat nic \<le> length sizes"
    and "case vd of None \<Rightarrow> True | Some ps \<Rightarrow> unat nvc \<le> length ps"
  shows "\<exists>s'. CreateVertexArray drv vd sizes nvc nic nv indexData ni u s
                = Some (drvGenVertexArrays drv, s')"
proof -
  define nb where "nb = nvc + nic + 1"
  have k: "nb - 1 = nvc + nic"
    by (simp add: nb_def)
  have u1: "unat (nvc + nic) = unat nvc + unat nic"
    using assms(1) unat_add_lem [of nvc nic] by simp
  have u2: "unat nb = unat nvc + unat nic + 1"
    using assms(1) u1 unat_add_lem [of "nvc + nic" 1] by (simp add: nb_def)
  define bufs where "bufs = map (drvGenBuffers drv) [0..<unat nb]"
  define s2 where "s2 = emit (glGenBuffers nb)
     (SetVAO (drvGenVertexArrays drv) (emit glGenVertexArrays s))"
  have z: "unat (nb - 1) - unat (0::GLuint) = unat (nb - 1)"
    by simp
  have a1: "unat (nb - 1) \<le> length sizes"
    using assms(2) by (simp add: k u1)
  have a2: "unat (nb - 1) \<le> length bufs"
    by (simp add: bufs_def k u1 u2)
  have a3: "unat (nb - 1) \<le> length (replicate (unat nb) (0::size_t))"
    by (simp add: k u1 u2)
  have a4: "case vd of None \<Rightarrow> True | Some ps \<Rightarrow> min (unat nvc) (unat (nb - 1)) \<le> length ps"
    using assms(3) by (simp split: option.splits)
  from component_loop_returns [OF z a1 a2 a3 a4, of nv u 0 s2]
  obtain bsz s3 where
    loop: "component_loop vd sizes nvc nv u bufs nb 0 0 (replicate (unat nb) 0) s2 = Some (bsz, s3)"
    by blast
  have last: "unat (nb - 1) < length bufs"
    by (simp add: bufs_def k u1 u2)
  show ?thesis
    using loop last
    by (simp add: CreateVertexArray_def Let_def nb_def [symmetric] bufs_def [symmetric]
        s2_def [symmetric])
qed

text \<open>
  Claim C7. When \<^verbatim>\<open>CreateVertexArray\<close> returns, the \<^verbatim>\<open>glVertexAttribPointer\<close>
  calls it has issued are at the consecutive slots 0, 1, 2 and so on, and their widths
  are the packed widths of the components in their order: a component of element size
  \<open>n\<close> takes \<open>n div 4\<close> slots of width 4 followed by one slot of width \<open>n mod 4\<close>
  when that is not 0, which makes \<open>(n + 3) div 4\<close> slots, so that size 5 gives the
  widths 4 and 1, size 8 gives 4 and 4, and size 4 gives 4. The slots marked with
  \<^verbatim>\<open>glVertexAttribDivisor\<close>, with divisor 1, are exactly the slots of the instance
  components, those from index \<^verbatim>\<open>numVertexComponents\<close> on.
\<close>

theorem CreateVertexArray_attribute_slots:
  "CreateVertexArray drv vd sizes nvc nic nv indexData ni u s = Some (vao, s') \<Longrightarrow>
     pointer_slots (calls_between s s')
       = zip (consecutive_slots 0 (slot_count (map unat (take (unat (nvc + nic)) sizes))))
           (map of_nat (concat (map packed_slots (map unat (take (unat (nvc + nic)) sizes)))))
     \<and> divisor_slots (calls_between s s')
         = map (\<lambda>x. (x, 1))
             (consecutive_slots
                (of_nat (slot_count (take (unat nvc)
                   (map unat (take (unat (nvc + nic)) sizes)))))
                (slot_count (drop (unat nvc) (map unat (take (unat (nvc + nic)) sizes)))))
     \<and> (\<forall>n. length (packed_slots n) = (n + 3) div 4)
     \<and> packed_slots 5 = [4, 1] \<and> packed_slots 8 = [4, 4] \<and> packed_slots 4 = [4]"
proof -
  assume cv: "CreateVertexArray drv vd sizes nvc nic nv indexData ni u s = Some (vao, s')"
  define nb where "nb = nvc + nic + 1"
  define P where "P = [glGenVertexArrays]
     @ (if drvGenVertexArrays drv = boundVAO s then []
        else [glBindVertexArray (drvGenVertexArrays drv)])
     @ [glGenBuffers nb]"
  define s2 where "s2 = emit (glGenBuffers nb)
     (SetVAO (drvGenVertexArrays drv) (emit glGenVertexArrays s))"
  define bufs where "bufs = map (drvGenBuffers drv) [0..<unat nb]"
  define Q where "Q = [glBindBuffer GL_ELEMENT_ARRAY_BUFFER (bufs ! unat (nb - 1)),
     glBufferData GL_ELEMENT_ARRAY_BUFFER (ucast ni * 4) indexData u]"
  have i2: "issued s2 = issued s @ P"
    by (simp add: s2_def P_def SetVAO_def emit_def)
  from CreateVertexArray_loop [OF cv] obtain bsz s3 where
    loop: "component_loop vd sizes nvc nv u bufs nb 0 0 (replicate (unat nb) 0) s2
             = Some (bsz, s3)"
    and fin: "issued s' = issued s3 @ Q"
    unfolding nb_def s2_def bufs_def Q_def by blast
  have k: "nb - 1 = nvc + nic"
    by (simp add: nb_def)
  have z: "unat (nb - 1) - unat (0::GLuint) = unat (nb - 1)"
    by simp
  note lp = component_loop_calls [OF z loop, unfolded k unsigned_0 drop_0 diff_zero add_0]
  note l1 = lp [THEN conjunct1]
  note l2 = lp [THEN conjunct2, THEN conjunct1]
  note l3 = lp [THEN conjunct2, THEN conjunct2]
  have iss: "issued s' = issued s @ P @ calls_between s2 s3 @ Q"
    by (simp only: fin l1 i2 append_assoc)
  have cb: "calls_between s s' = P @ calls_between s2 s3 @ Q"
    by (simp add: calls_between_def [of s s'] iss)
  have pP: "pointer_slots P = []" "divisor_slots P = []"
    "pointer_slots Q = []" "divisor_slots Q = []"
    by (simp_all add: P_def Q_def pointer_slots_def divisor_slots_def)
  show ?thesis
  proof (intro conjI allI)
    show "pointer_slots (calls_between s s')
       = zip (consecutive_slots 0 (slot_count (map unat (take (unat (nvc + nic)) sizes))))
           (map of_nat (concat (map packed_slots (map unat (take (unat (nvc + nic)) sizes)))))"
      by (simp add: cb pP l2)
    show "divisor_slots (calls_between s s')
         = map (\<lambda>x. (x, 1))
             (consecutive_slots
                (of_nat (slot_count (take (unat nvc)
                   (map unat (take (unat (nvc + nic)) sizes)))))
                (slot_count (drop (unat nvc) (map unat (take (unat (nvc + nic)) sizes)))))"
      by (simp add: cb pP l3)
    show "length (packed_slots n) = (n + 3) div 4" for n
      by (rule length_packed_slots)
    show "packed_slots 5 = [4, 1]"
      by code_simp
    show "packed_slots 8 = [4, 4]"
      by code_simp
    show "packed_slots 4 = [4]"
      by code_simp
  qed
qed



lemma example_vertex_array_created:
  "map_option fst example_vertex_array = Some 3"
  by code_simp

theorem CreateVertexArray_attribute_slots_witness:
  "(\<exists>s'. example_vertex_array = Some (3, s')
      \<and> pointer_slots (calls_between example_device s')
           = [(0, 3), (1, 4), (2, 1), (3, 4), (4, 4), (5, 4), (6, 4)]
      \<and> divisor_slots (calls_between example_device s')
           = [(3, 1), (4, 1), (5, 1), (6, 1)])"
proof -
  obtain s' where c: "example_vertex_array = Some (3, s')"
    using example_vertex_array_created by (cases example_vertex_array) auto
  note t = CreateVertexArray_attribute_slots [OF c [unfolded example_vertex_array_def]]
  from t have "pointer_slots (calls_between example_device s')
       = zip (consecutive_slots 0
                (slot_count (map unat (take (unat (2 + 1 :: GLuint)) [3, 5, 16 :: GLuint]))))
           (map of_nat (concat (map packed_slots
              (map unat (take (unat (2 + 1 :: GLuint)) [3, 5, 16 :: GLuint])))))"
    by (rule conjunct1)
  also have "\<dots> = [(0, 3), (1, 4), (2, 1), (3, 4), (4, 4), (5, 4), (6, 4)]"
    by code_simp
  finally have p: "pointer_slots (calls_between example_device s')
       = [(0, 3), (1, 4), (2, 1), (3, 4), (4, 4), (5, 4), (6, 4)]" .
  from t have "divisor_slots (calls_between example_device s')
         = map (\<lambda>x. (x, 1))
             (consecutive_slots
                (of_nat (slot_count (take (unat (2 :: GLuint))
                   (map unat (take (unat (2 + 1 :: GLuint)) [3, 5, 16 :: GLuint])))))
                (slot_count (drop (unat (2 :: GLuint))
                   (map unat (take (unat (2 + 1 :: GLuint)) [3, 5, 16 :: GLuint])))))"
    by (rule conjunct1 [OF conjunct2])
  also have "\<dots> = [(3, 1), (4, 1), (5, 1), (6, 1)]"
    by code_simp
  finally have d: "divisor_slots (calls_between example_device s')
       = [(3, 1), (4, 1), (5, 1), (6, 1)]" .
  from c p d show ?thesis
    by blast
qed


end
